theory Spec2Isabelle
  imports Main
begin

section \<open>Common vocabulary\<close>

text \<open>
  The application is glue code around remote services. Every awaited external promise is
  taken to settle, and what it settles with is a parameter of the model: a value of
  \<open>error + 'a\<close>, where \<open>Inl\<close> is a rejection (or a synchronous throw) and \<open>Inr\<close> the
  fulfilment value. A function of the source that issues remote calls returns, next to
  its result, the list of calls it issued, in the order of issue.
\<close>

datatype error =
    Error string               \<comment> \<open>a JavaScript \<open>Error\<close> (or \<open>TypeError\<close>) with its \<open>message\<close>\<close>
  | GapiError "string option"  \<comment> \<open>a gapi rejection object; the field is \<open>result.error.message\<close>\<close>

record blob =
  blob_parts :: string
  blob_type :: string

text \<open>
  What \<open>getAttachmentContent\<close> passes as \<open>mimeType\<close> to \<open>drive.files.export\<close>: the value
  \<open>googleMimeTypes[mimeType]\<close>, which is a string of the table or, for a key the table does
  not have but every object inherits, the inherited member of \<open>Object.prototype\<close> of that
  name.
\<close>

datatype export_type = ExportAs string | InheritedMember string

datatype api_call =
    ScriptsLoad
  | GapiClientInit string
  | InitTokenClient string
  | CoursesList
  | UsersGet string
  | CourseWorkList string
  | StudentSubmissionsList string
  | DriveFilesExport string export_type
  | DriveFilesGetMedia string
  | DriveUpload string string blob
  | ModifyAttachments string string string "string list"
  | TurnIn string string string
  | GenerateContent

text \<open>\<open>String.prototype.startsWith\<close>.\<close>

definition startsWith :: "string \<Rightarrow> string \<Rightarrow> bool" where
  "startsWith s p = (take (length p) s = p)"

section \<open>services/env.ts and services/auth.ts\<close>

definition GOOGLE_CLIENT_ID :: string where
  "GOOGLE_CLIENT_ID = ''YOUR_GOOGLE_CLIENT_ID''"

definition API_KEY :: string where
  "API_KEY = ''YOUR_API_KEY''"

text \<open>
  The outcomes of the three awaited steps of \<open>initClient\<close>: the promise that polls for the
  two Google scripts and then calls \<open>gapi.load\<close> (it rejects after ten seconds or on a load
  error), \<open>gapi.client.init\<close>, and \<open>google.accounts.oauth2.initTokenClient\<close>.
\<close>

record auth_env =
  scripts_loaded :: "error + unit"
  gapi_client_init :: "string \<Rightarrow> error + unit"
  initTokenClient :: "string \<Rightarrow> error + unit"

record auth_service =
  callbacks_registered :: bool
  tokenClient :: bool

definition not_configured :: string where
  "not_configured = ''API keys are not configured. Please add your credentials in services/env.ts.''"

definition could_not_initialize :: string where
  "could_not_initialize = ''Could not initialize Google APIs. Please ensure you have enabled 'Google Classroom API' and 'Google Drive API' in your Google Cloud Console and that your API Key is correct.''"

text \<open>
  \<open>AuthService.initClient\<close>, with the two credentials of \<open>services/env.ts\<close> as arguments.
  The callbacks are stored first, then the placeholder guard throws, then the scripts are
  awaited, then the \<open>try\<close> block initialises the two clients and its \<open>catch\<close> rethrows a
  fixed message.
\<close>

definition initClient ::
  "auth_env \<Rightarrow> string \<Rightarrow> string \<Rightarrow> auth_service \<Rightarrow> (error + unit) \<times> auth_service \<times> api_call list" where
  "initClient env client_id api_key svc =
     (let svc1 = svc\<lparr>callbacks_registered := True\<rparr> in
      if startsWith client_id ''YOUR_'' \<or> startsWith api_key ''YOUR_''
      then (Inl (Error not_configured), svc1, [])
      else
        (case scripts_loaded env of
           Inl e \<Rightarrow> (Inl e, svc1, [ScriptsLoad])
         | Inr _ \<Rightarrow>
             (case gapi_client_init env api_key of
                Inl e \<Rightarrow> (Inl (Error could_not_initialize), svc1, [ScriptsLoad, GapiClientInit api_key])
              | Inr _ \<Rightarrow>
                  (case initTokenClient env client_id of
                     Inl e \<Rightarrow>
                       (Inl (Error could_not_initialize), svc1,
                        [ScriptsLoad, GapiClientInit api_key, InitTokenClient client_id])
                   | Inr _ \<Rightarrow>
                       (Inr (), svc1\<lparr>tokenClient := True\<rparr>,
                        [ScriptsLoad, GapiClientInit api_key, InitTokenClient client_id])))))"

section \<open>Promise.all\<close>

text \<open>
  The order in which \<open>n\<close> promises settle is given by a list of indices \<open>order\<close>: the
  promises it lists settle in that order (an index out of range or listed before is
  skipped), and a promise it does not list settles after the others, in list order. Every
  promise settles exactly once.
\<close>

fun listed_once :: "nat \<Rightarrow> nat list \<Rightarrow> nat list \<Rightarrow> nat list" where
  "listed_once n seen [] = []"
| "listed_once n seen (i # rest) =
     (if i < n \<and> i \<notin> set seen then i # listed_once n (i # seen) rest
      else listed_once n seen rest)"

definition settle_order :: "nat list \<Rightarrow> nat \<Rightarrow> nat list" where
  "settle_order order n = listed_once n [] order @ filter (\<lambda>i. i \<notin> set order) [0..<n]"

text \<open>
  \<open>Promise.all\<close> over promises whose outcomes are \<open>ps\<close>. The promises are started in list
  order. The result is the list of all values when every promise fulfils, and otherwise
  the error of the promise that rejects first.
\<close>

fun first_rejection :: "(error + 'a) list \<Rightarrow> error option" where
  "first_rejection [] = None"
| "first_rejection (Inl e # ps) = Some e"
| "first_rejection (Inr v # ps) = first_rejection ps"

fun fulfilled :: "(error + 'a) list \<Rightarrow> 'a list" where
  "fulfilled [] = []"
| "fulfilled (Inl e # ps) = fulfilled ps"
| "fulfilled (Inr v # ps) = v # fulfilled ps"

definition promise_all :: "nat list \<Rightarrow> (error + 'a) list \<Rightarrow> error + 'a list" where
  "promise_all order ps =
     (case first_rejection (map (\<lambda>i. ps ! i) (settle_order order (length ps))) of
        Some e \<Rightarrow> Inl e
      | None \<Rightarrow> Inr (fulfilled ps))"

section \<open>types.ts\<close>

record course =
  course_id :: string
  course_name :: string
  course_section :: string
  course_teacher :: string

record drive_file =
  df_id :: string
  df_title :: string
  df_alternateLink :: string
  df_mimeType :: string

record attachment =
  att_title :: string
  att_driveFile :: drive_file

text \<open>\<open>studentSubmissionId?: string\<close> is the one optional field: \<open>None\<close> is \<open>undefined\<close>.\<close>

record assignment =
  a_id :: string
  a_courseId :: string
  a_title :: string
  a_description :: string
  a_dueDate :: string
  a_attachments :: "attachment list"
  a_studentSubmissionId :: "string option"

record generated_file =
  gf_name :: string
  gf_content :: string
  gf_handwritten :: bool

text \<open>\<open>interface FileBlob extends GeneratedFile\<close>.\<close>

record file_blob = generated_file +
  fb_blob :: blob

section \<open>services/classroomApi.ts\<close>

subsection \<open>The JSON of the Classroom and Drive responses\<close>

text \<open>
  The responses are untyped in the source. A field the code guards (with \<open>||\<close>, \<open>if\<close>,
  \<open>filter\<close> or optional chaining) is an option here, \<open>None\<close> standing for \<open>undefined\<close>;
  a field the code copies unguarded has the type the interfaces of \<open>types.ts\<close> give it.
\<close>

record api_course =
  ac_id :: string
  ac_name :: string
  ac_section :: "string option"
  ac_ownerId :: string

record api_date =
  d_year :: "int option"
  d_month :: "int option"
  d_day :: "int option"

record api_shared_drive_file =
  sdf_driveFile :: drive_file

record api_material =
  m_driveFile :: "api_shared_drive_file option"

record api_coursework =
  cw_id :: string
  cw_courseId :: string
  cw_title :: string
  cw_description :: "string option"
  cw_dueDate :: "api_date option"
  cw_materials :: "api_material list option"

record api_submission =
  sub_courseWorkId :: string
  sub_id :: string

text \<open>
  The body of an upload response after \<open>response.json()\<close>: \<open>result.id\<close>, and
  \<open>errorBody.error.message\<close> (\<open>None\<close> when the body has no \<open>error\<close> member, where reading
  \<open>message\<close> throws a \<open>TypeError\<close>).
\<close>

record json_body =
  body_id :: string
  body_error_message :: "string option"

record http_response =
  resp_ok :: bool
  resp_json :: "error + json_body"

text \<open>
  What the remote services and the browser answer. \<open>users_get\<close> gives
  \<open>teacherResponse?.result?.name?.fullName\<close>; \<open>toLocaleDateString\<close> renders
  \<open>new Date(year, monthIndex, day)\<close> in the browser's locale; \<open>getAccessToken\<close> is
  \<open>authService.getAccessToken()\<close>; \<open>fetch_upload\<close> is the multipart \<open>POST\<close> to the Drive
  upload endpoint for a bearer token, a file name and a blob.
\<close>

record google_env =
  courses_list :: "error + api_course list option"
  users_get :: "string \<Rightarrow> error + string option"
  courseWork_list :: "string \<Rightarrow> error + api_coursework list option"
  studentSubmissions_list :: "string \<Rightarrow> error + api_submission list option"
  toLocaleDateString :: "int option \<times> int option \<times> int option \<Rightarrow> string"
  drive_files_export :: "string \<Rightarrow> export_type \<Rightarrow> error + string"
  drive_files_get_media :: "string \<Rightarrow> error + string"
  btoa :: "string \<Rightarrow> error + string"
  getAccessToken :: "string option"
  fetch_upload :: "string \<Rightarrow> string \<Rightarrow> blob \<Rightarrow> error + http_response"
  modifyAttachments :: "string \<Rightarrow> string \<Rightarrow> string \<Rightarrow> string list \<Rightarrow> error + unit"
  turnIn :: "string \<Rightarrow> string \<Rightarrow> string \<Rightarrow> error + unit"

text \<open>\<open>v || d\<close> for a string that may be missing: \<open>undefined\<close> and \<open>''\<close> are falsy.\<close>

definition or_default :: "string option \<Rightarrow> string \<Rightarrow> string" where
  "or_default v d = (case v of None \<Rightarrow> d | Some s \<Rightarrow> if s = [] then d else s)"

definition formatDate :: "google_env \<Rightarrow> api_date option \<Rightarrow> string" where
  "formatDate env date =
     (case date of
        None \<Rightarrow> ''No due date''
      | Some d \<Rightarrow> toLocaleDateString env (d_year d, map_option (\<lambda>m. m - 1) (d_month d), d_day d))"

subsection \<open>getCourses\<close>

text \<open>The callback of \<open>courses.map\<close>: its \<open>try\<close>/\<open>catch\<close> swallows a failed teacher lookup.\<close>

definition course_with_teacher :: "google_env \<Rightarrow> api_course \<Rightarrow> error + course" where
  "course_with_teacher env c =
     (let teacherName =
            (case users_get env (ac_ownerId c) of
               Inl e \<Rightarrow> ''N/A''
             | Inr fullName \<Rightarrow> or_default fullName ''N/A'')
      in Inr \<lparr>course_id = ac_id c, course_name = ac_name c,
              course_section = or_default (ac_section c) ''General'',
              course_teacher = teacherName\<rparr>)"

definition getCourses :: "google_env \<Rightarrow> nat list \<Rightarrow> (error + course list) \<times> api_call list" where
  "getCourses env order =
     (case courses_list env of
        Inl e \<Rightarrow> (Inl e, [CoursesList])
      | Inr result \<Rightarrow>
          (let courses = (case result of None \<Rightarrow> [] | Some cs \<Rightarrow> cs) in
           (promise_all order (map (course_with_teacher env) courses),
            CoursesList # map (\<lambda>c. UsersGet (ac_ownerId c)) courses)))"

subsection \<open>getAssignments\<close>

fun attachments_of :: "api_material list \<Rightarrow> attachment list" where
  "attachments_of [] = []"
| "attachments_of (m # ms) =
     (case m_driveFile m of
        None \<Rightarrow> attachments_of ms
      | Some shared \<Rightarrow>
          \<lparr>att_title = df_title (sdf_driveFile shared),
           att_driveFile =
             \<lparr>df_id = df_id (sdf_driveFile shared), df_title = df_title (sdf_driveFile shared),
              df_alternateLink = df_alternateLink (sdf_driveFile shared),
              df_mimeType = df_mimeType (sdf_driveFile shared)\<rparr>\<rparr> # attachments_of ms)"

definition submissions_map :: "api_submission list option \<Rightarrow> (string \<rightharpoonup> string)" where
  "submissions_map subs =
     (case subs of
        None \<Rightarrow> Map.empty
      | Some ss \<Rightarrow> fold (\<lambda>sub m. m(sub_courseWorkId sub \<mapsto> sub_id sub)) ss Map.empty)"

definition to_assignment :: "google_env \<Rightarrow> (string \<rightharpoonup> string) \<Rightarrow> api_coursework \<Rightarrow> assignment" where
  "to_assignment env submissionsMap item =
     \<lparr>a_id = cw_id item, a_courseId = cw_courseId item, a_title = cw_title item,
      a_description = or_default (cw_description item) ''No description provided.'',
      a_dueDate = formatDate env (cw_dueDate item),
      a_attachments = attachments_of (case cw_materials item of None \<Rightarrow> [] | Some ms \<Rightarrow> ms),
      a_studentSubmissionId = submissionsMap (cw_id item)\<rparr>"

definition getAssignments :: "google_env \<Rightarrow> string \<Rightarrow> (error + assignment list) \<times> api_call list" where
  "getAssignments env courseId =
     (case courseWork_list env courseId of
        Inl e \<Rightarrow> (Inl e, [CourseWorkList courseId])
      | Inr result \<Rightarrow>
          (let coursework = (case result of None \<Rightarrow> [] | Some cw \<Rightarrow> cw) in
           case studentSubmissions_list env courseId of
             Inl e \<Rightarrow> (Inl e, [CourseWorkList courseId, StudentSubmissionsList courseId])
           | Inr subs \<Rightarrow>
               (Inr (map (to_assignment env (submissions_map subs)) coursework),
                [CourseWorkList courseId, StudentSubmissionsList courseId])))"

subsection \<open>getAttachmentContent\<close>

text \<open>
  The object literal \<open>googleMimeTypes\<close>, as the association list of the three keys it is
  written with.
\<close>

definition googleMimeTypes :: "(string \<times> string) list" where
  "googleMimeTypes =
     [(''application/vnd.google-apps.document'', ''text/plain''),
      (''application/vnd.google-apps.spreadsheet'', ''text/csv''),
      (''application/vnd.google-apps.presentation'', ''text/plain'')]"

text \<open>
  The names every plain object inherits from \<open>Object.prototype\<close>. The lookup
  \<open>googleMimeTypes[mimeType]\<close> finds the table's own keys first and these names next, each
  with a truthy value (a function, or the prototype object for \<open>__proto__\<close>); for any
  other string it is \<open>undefined\<close>.
\<close>

definition object_prototype_members :: "string list" where
  "object_prototype_members =
     [''constructor'', ''__defineGetter__'', ''__defineSetter__'', ''hasOwnProperty'',
      ''__lookupGetter__'', ''__lookupSetter__'', ''isPrototypeOf'', ''propertyIsEnumerable'',
      ''toString'', ''valueOf'', ''__proto__'', ''toLocaleString'']"

definition googleMimeTypes_at :: "string \<Rightarrow> export_type option" where
  "googleMimeTypes_at mimeType =
     (case map_of googleMimeTypes mimeType of
        Some exportType \<Rightarrow> Some (ExportAs exportType)
      | None \<Rightarrow>
          if mimeType \<in> set object_prototype_members then Some (InheritedMember mimeType)
          else None)"

definition too_large :: "string \<Rightarrow> string" where
  "too_large mimeType =
     ''[Content of file type ('' @ mimeType @ '') is too large to be read by the assistant.]''"

definition cannot_be_read :: "string \<Rightarrow> string" where
  "cannot_be_read mimeType =
     ''[Content of file type ('' @ mimeType @ '') cannot be read by the assistant.]''"

definition error_reading :: string where
  "error_reading = ''[Error reading attachment content.]''"

text \<open>The \<open>try\<close> block: a rejected Drive call or a throwing \<open>btoa\<close> leaves it with the error.\<close>

definition getAttachmentContent_try ::
  "google_env \<Rightarrow> string \<Rightarrow> string \<Rightarrow> (error + string) \<times> api_call list" where
  "getAttachmentContent_try env fileId mimeType =
     (case googleMimeTypes_at mimeType of
        Some exportType \<Rightarrow>
          (case drive_files_export env fileId exportType of
             Inl e \<Rightarrow> (Inl e, [DriveFilesExport fileId exportType])
           | Inr body \<Rightarrow> (Inr body, [DriveFilesExport fileId exportType]))
      | None \<Rightarrow>
          (let readableImageOrPdf =
                 (startsWith mimeType ''image/'' \<or> mimeType = ''application/pdf'')
           in if readableImageOrPdf
              then (case drive_files_get_media env fileId of
                      Inl e \<Rightarrow> (Inl e, [DriveFilesGetMedia fileId])
                    | Inr body \<Rightarrow>
                        if length body > 3 * 1024 * 1024
                        then (Inr (too_large mimeType), [DriveFilesGetMedia fileId])
                        else (case btoa env body of
                                Inl e \<Rightarrow> (Inl e, [DriveFilesGetMedia fileId])
                              | Inr base64Data \<Rightarrow>
                                  (Inr (''data:'' @ mimeType @ '';base64,'' @ base64Data),
                                   [DriveFilesGetMedia fileId])))
              else (Inr (cannot_be_read mimeType), [])))"

text \<open>The whole function: the \<open>catch\<close> turns any error of the block into a string.\<close>

definition getAttachmentContent ::
  "google_env \<Rightarrow> string \<Rightarrow> string \<Rightarrow> (error + string) \<times> api_call list" where
  "getAttachmentContent env fileId mimeType =
     (case getAttachmentContent_try env fileId mimeType of
        (Inl e, calls) \<Rightarrow> (Inr error_reading, calls)
      | (Inr content, calls) \<Rightarrow> (Inr content, calls))"

subsection \<open>submitAssignment and uploadFileToDrive\<close>

definition uploadFileToDrive :: "google_env \<Rightarrow> file_blob \<Rightarrow> (error + string) \<times> api_call list" where
  "uploadFileToDrive env file =
     (case getAccessToken env of
        None \<Rightarrow> (Inl (Error ''Not authenticated''), [])
      | Some accessToken \<Rightarrow>
          if accessToken = [] then (Inl (Error ''Not authenticated''), [])
          else
            (let issued = [DriveUpload accessToken (gf_name file) (fb_blob file)] in
             case fetch_upload env accessToken (gf_name file) (fb_blob file) of
               Inl e \<Rightarrow> (Inl e, issued)
             | Inr response \<Rightarrow>
                 if \<not> resp_ok response
                 then (case resp_json response of
                         Inl e \<Rightarrow> (Inl e, issued)
                       | Inr errorBody \<Rightarrow>
                           (case body_error_message errorBody of
                              None \<Rightarrow>
                                (Inl (Error ''Cannot read properties of undefined (reading 'message')''),
                                 issued)
                            | Some message \<Rightarrow>
                                (Inl (Error (''Google Drive upload failed: '' @ message)), issued)))
                 else (case resp_json response of
                         Inl e \<Rightarrow> (Inl e, issued)
                       | Inr result \<Rightarrow> (Inr (body_id result), issued))))"

text \<open>The value \<open>{ success: true }\<close>.\<close>

datatype submit_result = Success_true

text \<open>
  Every upload is started by \<open>files.map\<close> before the first \<open>await\<close>, so the upload requests
  are issued for all files, in list order, whatever their outcomes; the two Classroom
  calls come after \<open>Promise.all\<close> has fulfilled.
\<close>

definition submitAssignment ::
  "google_env \<Rightarrow> nat list \<Rightarrow> string \<Rightarrow> string \<Rightarrow> string \<Rightarrow> file_blob list \<Rightarrow>
   (error + submit_result) \<times> api_call list" where
  "submitAssignment env order courseId courseWorkId submissionId files =
     (let uploads = map (uploadFileToDrive env) files;
          issued = concat (map snd uploads)
      in case promise_all order (map fst uploads) of
           Inl e \<Rightarrow> (Inl e, issued)
         | Inr driveFileIds \<Rightarrow>
             (let modify = ModifyAttachments courseId courseWorkId submissionId driveFileIds in
              case modifyAttachments env courseId courseWorkId submissionId driveFileIds of
                Inl e \<Rightarrow> (Inl e, issued @ [modify])
              | Inr _ \<Rightarrow>
                  (let turn = TurnIn courseId courseWorkId submissionId in
                   case turnIn env courseId courseWorkId submissionId of
                     Inl e \<Rightarrow> (Inl e, issued @ [modify, turn])
                   | Inr _ \<Rightarrow> (Inr Success_true, issued @ [modify, turn]))))"

section \<open>components/Dashboard.tsx\<close>





section \<open>components/AssignmentView.tsx\<close>

text \<open>
  The source holds two revisions of this component. The first has the Gemini key guard and
  \<open>handleSubmit\<close>; the second has the attachment effect. Their \<open>Status\<close> enums and state
  hooks are merged here: each revision uses its own constructors and fields and leaves the
  others alone.
\<close>

datatype status =
    IDLE | FETCHING_ATTACHMENTS | SOLVING | GENERATING_FILES | ZIPPING
  | UPLOADING | SUBMITTING | UPLOADING_TO_DRIVE | DONE | ERROR

datatype submission_status = SUBMISSION_IDLE | SUBMISSION_SUCCESS

record view_state =
  v_status :: status
  v_error :: "string option"
  v_generatedFiles :: "file_blob list"
  v_zipBlob :: "blob option"
  v_submissionStatus :: submission_status
  v_driveFileLinks :: "string list"
  v_selectedFont :: string
  v_attachmentContents :: "string \<rightharpoonup> string"

definition GEMINI_API_KEY :: string where
  "GEMINI_API_KEY = ''YOUR_GEMINI_API_KEY''"

text \<open>
  The services behind \<open>handleSolve\<close>. \<open>generateContent\<close> is the reply of the completion
  service (the prompt sent is not modelled); \<open>parse_files\<close> is
  \<open>JSON.parse(response.text.trim()).files\<close>, an error when the text is not such a JSON
  document; \<open>jsPDF_output\<close> is the blob \<open>doc.output('blob')\<close> for a content and a font;
  \<open>zip_generateAsync\<close> is \<open>zip.generateAsync\<close> on the entries of the archive.
\<close>

record solver_env =
  generateContent :: "error + string"
  parse_files :: "string \<Rightarrow> error + generated_file list"
  jsPDF_output :: "string \<Rightarrow> string \<Rightarrow> error + blob"
  zip_generateAsync :: "(string \<times> blob) list \<Rightarrow> error + blob"

subsection \<open>File names\<close>

text \<open>\<open>s.split(sep)\<close> for a one-character separator, \<open>parts.join(sep)\<close>, and \<open>xs.slice(0, -1)\<close>.\<close>

fun js_split :: "char \<Rightarrow> string \<Rightarrow> string list" where
  "js_split sep [] = [[]]"
| "js_split sep (c # cs) =
     (if c = sep then [] # js_split sep cs
      else (case js_split sep cs of
              [] \<Rightarrow> [[c]]
            | part # parts \<Rightarrow> (c # part) # parts))"

fun js_join :: "string \<Rightarrow> string list \<Rightarrow> string" where
  "js_join sep [] = []"
| "js_join sep [part] = part"
| "js_join sep (part # next_part # parts) = part @ sep @ js_join sep (next_part # parts)"

definition slice_0_minus_1 :: "'a list \<Rightarrow> 'a list" where
  "slice_0_minus_1 xs = take (length xs - 1) xs"

text \<open>\<open>file.name.split('.').slice(0, -1).join('.') + '.pdf'\<close>.\<close>

definition pdf_name :: "string \<Rightarrow> string" where
  "pdf_name name = js_join ''.'' (slice_0_minus_1 (js_split (CHR ''.'') name)) @ ''.pdf''"

text \<open>
  The same name in the words of the specification: everything before the last dot, or
  nothing when there is no dot, followed by \<open>.pdf\<close>.
\<close>

definition before_last_dot :: "string \<Rightarrow> string" where
  "before_last_dot name =
     (if CHR ''.'' \<in> set name
      then rev (tl (dropWhile (\<lambda>c. c \<noteq> CHR ''.'') (rev name)))
      else [])"

subsection \<open>handleSolve\<close>

text \<open>\<open>createHandwrittenPdf\<close>: its \<open>name\<close> argument is not used.\<close>

definition createHandwrittenPdf :: "solver_env \<Rightarrow> string \<Rightarrow> string \<Rightarrow> string \<Rightarrow> error + blob" where
  "createHandwrittenPdf env content name fontFamily = jsPDF_output env content fontFamily"

text \<open>The callback of \<open>filesToGenerate.map\<close>; \<open>{ ...file, blob }\<close> extends the file record.\<close>

definition make_file_blob :: "solver_env \<Rightarrow> string \<Rightarrow> generated_file \<Rightarrow> error + file_blob" where
  "make_file_blob env selectedFont file =
     (if gf_handwritten file
      then (case createHandwrittenPdf env (gf_content file) (gf_name file) selectedFont of
              Inl e \<Rightarrow> Inl e
            | Inr b \<Rightarrow>
                Inr (generated_file.extend (file\<lparr>gf_name := pdf_name (gf_name file)\<rparr>)
                       (file_blob.fields b)))
      else Inr (generated_file.extend file
                  (file_blob.fields
                     \<lparr>blob_parts = gf_content file, blob_type = ''text/plain;charset=utf-8''\<rparr>)))"

text \<open>
  The archive object of the zip library, as the list of its entries. \<open>zip.file(name, data)\<close>
  adds an entry, or replaces the data of the entry that already has this name: an archive
  holds one entry per name. (The folder entries the library adds for a name with a slash
  are not modelled.) \<open>zip_entries\<close> is the archive after the \<open>forEach\<close> over the files.
\<close>

definition zip_file :: "(string \<times> blob) list \<Rightarrow> string \<Rightarrow> blob \<Rightarrow> (string \<times> blob) list" where
  "zip_file archive name data =
     (if name \<in> fst ` set archive
      then map (\<lambda>entry. if fst entry = name then (name, data) else entry) archive
      else archive @ [(name, data)])"

definition zip_entries :: "file_blob list \<Rightarrow> (string \<times> blob) list" where
  "zip_entries fileBlobs =
     fold (\<lambda>file archive. zip_file archive (gf_name file) (fb_blob file)) fileBlobs []"

text \<open>
  The \<open>try\<close> block of \<open>handleSolve\<close>, the same in both revisions from the completion call on.
  It returns how the block ended, the state it left, and the remote calls issued.
\<close>

definition solve_try ::
  "solver_env \<Rightarrow> nat list \<Rightarrow> view_state \<Rightarrow> (error + unit) \<times> view_state \<times> api_call list" where
  "solve_try env order st =
     (case generateContent env of
        Inl e \<Rightarrow> (Inl e, st, [GenerateContent])
      | Inr text \<Rightarrow>
          (case parse_files env text of
             Inl e \<Rightarrow> (Inl e, st, [GenerateContent])
           | Inr filesToGenerate \<Rightarrow>
               (let st1 = st\<lparr>v_status := GENERATING_FILES\<rparr> in
                case promise_all order (map (make_file_blob env (v_selectedFont st)) filesToGenerate) of
                  Inl e \<Rightarrow> (Inl e, st1, [GenerateContent])
                | Inr fileBlobs \<Rightarrow>
                    (let st2 = st1\<lparr>v_generatedFiles := fileBlobs\<rparr> in
                     if length fileBlobs > 1
                     then (let st3 = st2\<lparr>v_status := ZIPPING\<rparr> in
                           case zip_generateAsync env (zip_entries fileBlobs) of
                             Inl e \<Rightarrow> (Inl e, st3, [GenerateContent])
                           | Inr content \<Rightarrow>
                               (Inr (), st3\<lparr>v_zipBlob := Some content, v_status := DONE\<rparr>,
                                [GenerateContent]))
                     else (Inr (), st2\<lparr>v_status := DONE\<rparr>, [GenerateContent])))))"

definition failed_to_solve :: string where
  "failed_to_solve =
     ''Failed to solve assignment. The AI might be unavailable or the request failed. Please try again.''"

definition solve_catch :: "(error + unit) \<times> view_state \<times> api_call list \<Rightarrow> view_state \<times> api_call list" where
  "solve_catch r =
     (case r of
        (Inr _, st, calls) \<Rightarrow> (st, calls)
      | (Inl e, st, calls) \<Rightarrow> (st\<lparr>v_error := Some failed_to_solve, v_status := ERROR\<rparr>, calls))"

text \<open>First revision: guarded by the Gemini key, which is an argument here.\<close>

definition handleSolve_v1 ::
  "solver_env \<Rightarrow> string \<Rightarrow> nat list \<Rightarrow> view_state \<Rightarrow> view_state \<times> api_call list" where
  "handleSolve_v1 env gemini_key order st =
     (if startsWith gemini_key ''YOUR_''
      then (st\<lparr>v_error := Some ''Please add your Gemini API Key in components/AssignmentView.tsx'',
               v_status := ERROR\<rparr>, [])
      else solve_catch
             (solve_try env order
                (st\<lparr>v_status := SOLVING, v_error := None, v_generatedFiles := [],
                    v_zipBlob := None, v_submissionStatus := SUBMISSION_IDLE\<rparr>)))"

text \<open>Second revision.\<close>

definition handleSolve_v2 ::
  "solver_env \<Rightarrow> nat list \<Rightarrow> view_state \<Rightarrow> view_state \<times> api_call list" where
  "handleSolve_v2 env order st =
     solve_catch
       (solve_try env order
          (st\<lparr>v_status := SOLVING, v_error := None, v_generatedFiles := [],
              v_zipBlob := None, v_driveFileLinks := []\<rparr>))"

subsection \<open>handleSubmit (first revision)\<close>

text \<open>\<open>e?.result?.error?.message || e?.message || '...'\<close>.\<close>

definition unknown_error :: string where
  "unknown_error = ''An unknown error occurred. Please check the console.''"

fun errorMessage :: "error \<Rightarrow> string" where
  "errorMessage (GapiError m) = or_default m unknown_error"
| "errorMessage (Error m) = or_default (Some m) unknown_error"

definition submission_missing :: string where
  "submission_missing = ''Cannot submit: Student submission details are missing.''"

text \<open>\<open>!assignment.studentSubmissionId\<close> holds for \<open>undefined\<close> and for the empty string.\<close>

definition handleSubmit ::
  "google_env \<Rightarrow> nat list \<Rightarrow> course \<Rightarrow> assignment \<Rightarrow> view_state \<Rightarrow> view_state \<times> api_call list" where
  "handleSubmit env order c a st =
     (let refused = (st\<lparr>v_error := Some submission_missing, v_status := ERROR\<rparr>, []) in
      case a_studentSubmissionId a of
        None \<Rightarrow> refused
      | Some submissionId \<Rightarrow>
          if submissionId = [] then refused
          else
            (let st1 = st\<lparr>v_error := None, v_status := UPLOADING\<rparr> in
             case submitAssignment env order (course_id c) (a_id a) submissionId
                    (v_generatedFiles st) of
               (Inr _, calls) \<Rightarrow>
                 (st1\<lparr>v_submissionStatus := SUBMISSION_SUCCESS, v_status := DONE\<rparr>, calls)
             | (Inl e, calls) \<Rightarrow>
                 (st1\<lparr>v_error := Some (''Submission failed: '' @ errorMessage e),
                      v_status := ERROR\<rparr>,
                  calls)))"

subsection \<open>The attachment effect (second revision)\<close>





section \<open>Specification vocabulary\<close>


text \<open>
  What the specification says of a file \<open>fb\<close> generated from a file \<open>file\<close> of the reply: a
  handwritten file becomes a PDF named by everything before the last dot plus \<open>.pdf\<close>; any
  other file keeps its name and gets a plain-text blob of exactly its content.
\<close>

definition generated_from :: "solver_env \<Rightarrow> string \<Rightarrow> generated_file \<Rightarrow> file_blob \<Rightarrow> bool" where
  "generated_from env font file fb =
     (gf_content fb = gf_content file \<and> gf_handwritten fb = gf_handwritten file \<and>
      (if gf_handwritten file
       then gf_name fb = before_last_dot (gf_name file) @ ''.pdf'' \<and>
            jsPDF_output env (gf_content file) font = Inr (fb_blob fb)
       else gf_name fb = gf_name file \<and>
            fb_blob fb = \<lparr>blob_parts = gf_content file, blob_type = ''text/plain;charset=utf-8''\<rparr>))"

text \<open>
  What holds of a course and of an assignment built from an item of a response: the copied
  fields, the defaults, and when the optional submission id is missing.
\<close>

definition course_fields :: "google_env \<Rightarrow> api_course \<Rightarrow> course \<Rightarrow> bool" where
  "course_fields env raw c =
     (course_id c = ac_id raw \<and> course_name c = ac_name raw \<and>
      course_section c =
        (case ac_section raw of
           None \<Rightarrow> ''General''
         | Some section \<Rightarrow> if section = [] then ''General'' else section) \<and>
      course_teacher c =
        (case users_get env (ac_ownerId raw) of
           Inl e \<Rightarrow> ''N/A''
         | Inr None \<Rightarrow> ''N/A''
         | Inr (Some fullName) \<Rightarrow> if fullName = [] then ''N/A'' else fullName))"

definition assignment_fields ::
  "google_env \<Rightarrow> api_submission list \<Rightarrow> api_coursework \<Rightarrow> assignment \<Rightarrow> bool" where
  "assignment_fields env subs item a =
     (a_id a = cw_id item \<and> a_courseId a = cw_courseId item \<and> a_title a = cw_title item \<and>
      a_description a =
        (case cw_description item of
           None \<Rightarrow> ''No description provided.''
         | Some description \<Rightarrow>
             if description = [] then ''No description provided.'' else description) \<and>
      a_dueDate a =
        (case cw_dueDate item of
           None \<Rightarrow> ''No due date''
         | Some d \<Rightarrow> toLocaleDateString env (d_year d, map_option (\<lambda>m. m - 1) (d_month d), d_day d)) \<and>
      length (a_attachments a) =
        length (filter (\<lambda>m. m_driveFile m \<noteq> None)
                  (case cw_materials item of None \<Rightarrow> [] | Some ms \<Rightarrow> ms)) \<and>
      (a_studentSubmissionId a = None \<longleftrightarrow> cw_id item \<notin> sub_courseWorkId ` set subs) \<and>
      (case a_studentSubmissionId a of
         None \<Rightarrow> True
       | Some submissionId \<Rightarrow>
           submissionId \<in> sub_id ` {sub \<in> set subs. sub_courseWorkId sub = cw_id item}))"

section \<open>Sample responses\<close>

text \<open>
  A small classroom used to run the functions above on concrete data: two courses, two
  pieces of coursework (one bare, one with a description, a due date, two materials and a
  submission), and a Drive holding a document, a small image and an oversized image.
\<close>

definition sample_courses :: "api_course list" where
  "sample_courses =
     [\<lparr>ac_id = ''c1'', ac_name = ''Algebra'', ac_section = None, ac_ownerId = ''t1''\<rparr>,
      \<lparr>ac_id = ''c2'', ac_name = ''Biology'', ac_section = Some ''Period 2'', ac_ownerId = ''t2''\<rparr>]"

definition sample_drive_file :: drive_file where
  "sample_drive_file =
     \<lparr>df_id = ''doc-1'', df_title = ''Worksheet'', df_alternateLink = ''https://drive/doc-1'',
      df_mimeType = ''application/vnd.google-apps.document''\<rparr>"

definition sample_coursework :: "api_coursework list" where
  "sample_coursework =
     [\<lparr>cw_id = ''w1'', cw_courseId = ''c1'', cw_title = ''Essay'', cw_description = None,
       cw_dueDate = None, cw_materials = None\<rparr>,
      \<lparr>cw_id = ''w2'', cw_courseId = ''c1'', cw_title = ''Lab'', cw_description = Some ''Write it up'',
       cw_dueDate = Some \<lparr>d_year = Some 2025, d_month = Some 3, d_day = Some 14\<rparr>,
       cw_materials =
         Some [\<lparr>m_driveFile = None\<rparr>,
               \<lparr>m_driveFile = Some \<lparr>sdf_driveFile = sample_drive_file\<rparr>\<rparr>]\<rparr>]"

definition sample_google :: google_env where
  "sample_google =
     \<lparr>courses_list = Inr (Some sample_courses),
      users_get = (\<lambda>ownerId. if ownerId = ''t1'' then Inr (Some ''Ada Lovelace'')
                               else Inl (GapiError (Some ''Permission denied''))),
      courseWork_list = (\<lambda>courseId. Inr (Some sample_coursework)),
      studentSubmissions_list =
        (\<lambda>courseId. Inr (Some [\<lparr>sub_courseWorkId = ''w2'', sub_id = ''s2''\<rparr>])),
      toLocaleDateString = (\<lambda>d. ''3/14/2025''),
      drive_files_export =
        (\<lambda>fileId exportType.
           if fileId = ''doc-1'' \<and> exportType = ExportAs ''text/plain'' then Inr ''Solve x + 1 = 2''
           else Inl (GapiError (Some ''Not found''))),
      drive_files_get_media =
        (\<lambda>fileId. if fileId = ''img-1'' then Inr ''abc''
                    else if fileId = ''img-2'' then Inr (replicate (3 * 1024 * 1024 + 1) (CHR ''x''))
                    else Inl (GapiError (Some ''Not found''))),
      btoa = (\<lambda>s. if s = ''abc'' then Inr ''YWJj'' else Inl (Error ''InvalidCharacterError'')),
      getAccessToken = Some ''ya29'',
      fetch_upload =
        (\<lambda>token name b.
           if name = ''rejected.txt''
           then Inr \<lparr>resp_ok = False,
                     resp_json = Inr \<lparr>body_id = [], body_error_message = Some ''Quota exceeded''\<rparr>\<rparr>
           else Inr \<lparr>resp_ok = True,
                     resp_json = Inr \<lparr>body_id = ''drive-'' @ name, body_error_message = None\<rparr>\<rparr>),
      modifyAttachments = (\<lambda>courseId courseWorkId submissionId driveFileIds. Inr ()),
      turnIn = (\<lambda>courseId courseWorkId submissionId. Inr ())\<rparr>"

definition sample_auth :: auth_env where
  "sample_auth =
     \<lparr>scripts_loaded = Inr (), gapi_client_init = (\<lambda>apiKey. Inr ()),
      initTokenClient = (\<lambda>clientId. Inr ())\<rparr>"

definition sample_service :: auth_service where
  "sample_service = \<lparr>callbacks_registered = False, tokenClient = False\<rparr>"

definition text_blob :: "string \<Rightarrow> blob" where
  "text_blob content = \<lparr>blob_parts = content, blob_type = ''text/plain;charset=utf-8''\<rparr>"

definition sample_file :: "string \<Rightarrow> string \<Rightarrow> file_blob" where
  "sample_file name content =
     \<lparr>gf_name = name, gf_content = content, gf_handwritten = False, fb_blob = text_blob content\<rparr>"

definition sample_course :: course where
  "sample_course =
     \<lparr>course_id = ''c1'', course_name = ''Algebra'', course_section = ''General'',
      course_teacher = ''Ada Lovelace''\<rparr>"

definition sample_assignment :: assignment where
  "sample_assignment =
     \<lparr>a_id = ''w1'', a_courseId = ''c1'', a_title = ''Essay'',
      a_description = ''No description provided.'', a_dueDate = ''No due date'',
      a_attachments = [], a_studentSubmissionId = None\<rparr>"

definition sample_view :: view_state where
  "sample_view =
     \<lparr>v_status = DONE, v_error = None,
      v_generatedFiles = [sample_file ''essay.txt'' ''Dear reader''],
      v_zipBlob = None, v_submissionStatus = SUBMISSION_IDLE, v_driveFileLinks = [],
      v_selectedFont = ''Caveat'', v_attachmentContents = Map.empty\<rparr>"



definition sample_solver :: solver_env where
  "sample_solver =
     \<lparr>generateContent = Inr ''{ files }'',
      parse_files =
        (\<lambda>text. Inr [\<lparr>gf_name = ''notes.final.txt'', gf_content = ''Dear diary'', gf_handwritten = True\<rparr>,
                       \<lparr>gf_name = ''script.py'', gf_content = ''print(1)'', gf_handwritten = False\<rparr>]),
      jsPDF_output = (\<lambda>content font. Inr \<lparr>blob_parts = font @ '':'' @ content, blob_type = ''application/pdf''\<rparr>),
      zip_generateAsync =
        (\<lambda>entries. Inr \<lparr>blob_parts = concat (map fst entries), blob_type = ''application/zip''\<rparr>)\<rparr>"

definition sample_solver_single :: solver_env where
  "sample_solver_single =
     sample_solver\<lparr>parse_files :=
       (\<lambda>text. Inr [\<lparr>gf_name = ''README'', gf_content = ''Hello'', gf_handwritten = True\<rparr>])\<rparr>"

definition sample_solver_clash :: solver_env where
  "sample_solver_clash =
     sample_solver\<lparr>parse_files :=
       (\<lambda>text. Inr [\<lparr>gf_name = ''a.txt'', gf_content = ''one'', gf_handwritten = True\<rparr>,
                      \<lparr>gf_name = ''a.md'', gf_content = ''two'', gf_handwritten = True\<rparr>])\<rparr>"

definition sample_idle :: view_state where
  "sample_idle =
     \<lparr>v_status = IDLE, v_error = None, v_generatedFiles = [], v_zipBlob = None,
      v_submissionStatus = SUBMISSION_IDLE, v_driveFileLinks = [],
      v_selectedFont = ''Caveat'', v_attachmentContents = Map.empty\<rparr>"




section \<open>Theorems\<close>

subsection \<open>Initialisation guard\<close>

lemma startsWith_literal [simp]:
  "startsWith GOOGLE_CLIENT_ID ''YOUR_''" "startsWith API_KEY ''YOUR_''"
  by (simp_all add: startsWith_def GOOGLE_CLIENT_ID_def API_KEY_def)

text \<open>
  Claim C7. \<open>initClient\<close> throws the "API keys are not configured" error whenever either
  credential begins with \<open>YOUR_\<close>, and it does so before any Google script is loaded or
  initialised: the list of calls issued is empty. With both placeholders replaced, the
  first thing it does is to wait for the scripts.
\<close>

theorem initClient_placeholder_guard:
  "(startsWith client_id ''YOUR_'' \<or> startsWith api_key ''YOUR_'' \<longrightarrow>
      fst (initClient env client_id api_key svc) = Inl (Error not_configured) \<and>
      snd (snd (initClient env client_id api_key svc)) = []) \<and>
   (\<not> startsWith client_id ''YOUR_'' \<and> \<not> startsWith api_key ''YOUR_'' \<longrightarrow>
      (\<exists>rest. snd (snd (initClient env client_id api_key svc)) = ScriptsLoad # rest))"
  by (auto simp: initClient_def Let_def not_configured_def could_not_initialize_def
      split: sum.splits)

theorem initClient_placeholder_guard_witness:
  "startsWith GOOGLE_CLIENT_ID ''YOUR_'' \<and>
   initClient sample_auth GOOGLE_CLIENT_ID API_KEY sample_service =
     (Inl (Error ''API keys are not configured. Please add your credentials in services/env.ts.''),
      sample_service\<lparr>callbacks_registered := True\<rparr>, []) \<and>
   \<not> startsWith ''1234.apps.googleusercontent.com'' ''YOUR_'' \<and> \<not> startsWith ''AIza'' ''YOUR_'' \<and>
   snd (snd (initClient sample_auth ''1234.apps.googleusercontent.com'' ''AIza'' sample_service)) =
     [ScriptsLoad, GapiClientInit ''AIza'', InitTokenClient ''1234.apps.googleusercontent.com'']"
  using initClient_placeholder_guard [of GOOGLE_CLIENT_ID API_KEY sample_auth sample_service]
    initClient_placeholder_guard [of "''1234.apps.googleusercontent.com''" "''AIza''" sample_auth sample_service]
  by (simp add: initClient_def startsWith_def sample_auth_def not_configured_def
      GOOGLE_CLIENT_ID_def API_KEY_def)


subsection \<open>Promise.all\<close>

lemma listed_once_set:
  "set (listed_once n seen order) = {i \<in> set order. i < n \<and> i \<notin> set seen}"
  by (induction order arbitrary: seen) auto

lemma listed_once_distinct: "distinct (listed_once n seen order)"
  by (induction order arbitrary: seen) (auto simp: listed_once_set)

lemma settle_order_set: "set (settle_order order n) = {0..<n}"
  by (auto simp: settle_order_def listed_once_set)

lemma settle_order_distinct: "distinct (settle_order order n)"
  by (auto simp: settle_order_def listed_once_set listed_once_distinct)

lemma first_rejection_None_iff: "first_rejection ps = None \<longleftrightarrow> ps = map Inr (fulfilled ps)"
  by (induction ps rule: first_rejection.induct) auto

lemma first_rejection_None_all:
  "first_rejection ps = None \<longleftrightarrow> (\<forall>p \<in> set ps. \<exists>v. p = Inr v)"
  by (induction ps rule: first_rejection.induct) auto

lemma fulfilled_map_Inr [simp]: "fulfilled (map Inr vs) = vs"
  by (induction vs) auto

lemma first_rejection_settled:
  "first_rejection (map (\<lambda>i. ps ! i) (settle_order order (length ps))) = None \<longleftrightarrow>
     first_rejection ps = None"
proof -
  have "(\<forall>i \<in> {0..<length ps}. \<exists>v. ps ! i = Inr v) \<longleftrightarrow> (\<forall>p \<in> set ps. \<exists>v. p = Inr v)"
    by (auto simp: all_set_conv_all_nth)
  then show ?thesis
    by (simp add: first_rejection_None_all settle_order_set)
qed

lemma promise_all_Inr_iff: "promise_all order ps = Inr vs \<longleftrightarrow> ps = map Inr vs"
proof
  assume "promise_all order ps = Inr vs"
  then have "first_rejection (map (\<lambda>i. ps ! i) (settle_order order (length ps))) = None"
    and vs: "vs = fulfilled ps"
    by (auto simp: promise_all_def split: option.splits)
  then have "first_rejection ps = None"
    by (simp add: first_rejection_settled)
  with vs show "ps = map Inr vs"
    by (simp add: first_rejection_None_iff)
next
  assume ps: "ps = map Inr vs"
  then have "first_rejection ps = None"
    by (simp add: first_rejection_None_all)
  then have "first_rejection (map (\<lambda>i. ps ! i) (settle_order order (length ps))) = None"
    by (simp only: first_rejection_settled)
  then show "promise_all order ps = Inr vs"
    unfolding promise_all_def by (simp add: ps)
qed

lemma promise_all_map_Inr: "promise_all order (map Inr vs) = Inr vs"
  by (simp add: promise_all_Inr_iff)

lemma promise_all_rejects:
  assumes "Inl e \<in> set ps"
  shows "\<exists>e'. promise_all order ps = Inl e'"
proof (cases "promise_all order ps")
  case (Inl e')
  then show ?thesis by blast
next
  case (Inr vs)
  then have "ps = map Inr vs" by (simp add: promise_all_Inr_iff)
  with assms show ?thesis by auto
qed


subsection \<open>Submission\<close>

lemma uploadFileToDrive_calls:
  "call \<in> set (snd (uploadFileToDrive env file)) \<Longrightarrow>
     \<exists>token. call = DriveUpload token (gf_name file) (fb_blob file)"
  by (auto simp: uploadFileToDrive_def Let_def split: option.splits sum.splits if_splits)

lemma uploadFileToDrive_ok:
  assumes "getAccessToken env = Some token" "token \<noteq> []"
    and "fetch_upload env token (gf_name file) (fb_blob file) = Inr response"
    and "resp_ok response" "resp_json response = Inr result"
  shows "uploadFileToDrive env file =
           (Inr (body_id result), [DriveUpload token (gf_name file) (fb_blob file)])"
  using assms by (simp add: uploadFileToDrive_def)

lemma uploadFileToDrive_fails:
  assumes "getAccessToken env = None \<or>
           (\<exists>token response. getAccessToken env = Some token \<and>
              fetch_upload env token (gf_name file) (fb_blob file) = Inr response \<and>
              \<not> resp_ok response)"
  shows "\<exists>e. fst (uploadFileToDrive env file) = Inl e"
  using assms
  by (auto simp: uploadFileToDrive_def Let_def split: option.splits sum.splits)

text \<open>
  Claim C2. When every upload succeeds and the two Classroom calls succeed for the given
  identifiers, \<open>submitAssignment\<close> issues the Drive uploads of all files, then
  \<open>modifyAttachments\<close> with every returned Drive file id, then \<open>turnIn\<close>, in that order and
  nothing else, and resolves with \<open>{ success: true }\<close>. This holds for every list of
  files, in particular for every non-empty one.
\<close>

theorem submitAssignment_two_step:
  assumes token: "getAccessToken env = Some token" "token \<noteq> []"
    and uploads: "list_all2 (\<lambda>file fileId. \<exists>response result.
                      fetch_upload env token (gf_name file) (fb_blob file) = Inr response \<and>
                      resp_ok response \<and> resp_json response = Inr result \<and>
                      body_id result = fileId) files driveFileIds"
    and modify: "modifyAttachments env courseId courseWorkId submissionId driveFileIds = Inr ()"
    and turn: "turnIn env courseId courseWorkId submissionId = Inr ()"
  shows "submitAssignment env order courseId courseWorkId submissionId files =
           (Inr Success_true,
            map (\<lambda>file. DriveUpload token (gf_name file) (fb_blob file)) files @
            [ModifyAttachments courseId courseWorkId submissionId driveFileIds,
             TurnIn courseId courseWorkId submissionId])"
proof -
  have each: "map (uploadFileToDrive env) files =
                map2 (\<lambda>file fileId. (Inr fileId, [DriveUpload token (gf_name file) (fb_blob file)]))
                  files driveFileIds"
    using uploads
  proof (induction files driveFileIds rule: list_all2_induct)
    case Nil
    then show ?case by simp
  next
    case (Cons f fs fileId fileIds)
    then show ?case using token by (auto simp: uploadFileToDrive_ok)
  qed
  have len: "length files = length driveFileIds"
    using uploads by (rule list_all2_lengthD)
  have results: "map fst (map (uploadFileToDrive env) files) = map Inr driveFileIds"
    unfolding each using len by (induction files driveFileIds rule: list_induct2) auto
  have issued: "concat (map snd (map (uploadFileToDrive env) files)) =
                  map (\<lambda>file. DriveUpload token (gf_name file) (fb_blob file)) files"
    unfolding each using len by (induction files driveFileIds rule: list_induct2) auto
  show ?thesis
    unfolding submitAssignment_def Let_def results issued promise_all_map_Inr
    using modify turn by simp
qed

theorem submitAssignment_two_step_witness:
  "getAccessToken sample_google = Some ''ya29'' \<and>
   submitAssignment sample_google [1, 0] ''c1'' ''w2'' ''s2''
       [sample_file ''essay.txt'' ''Dear reader'', sample_file ''notes.md'' ''# Notes''] =
     (Inr Success_true,
      [DriveUpload ''ya29'' ''essay.txt'' (text_blob ''Dear reader''),
       DriveUpload ''ya29'' ''notes.md'' (text_blob ''# Notes''),
       ModifyAttachments ''c1'' ''w2'' ''s2'' [''drive-essay.txt'', ''drive-notes.md''],
       TurnIn ''c1'' ''w2'' ''s2''])"
proof -
  have token: "getAccessToken sample_google = Some ''ya29''" "''ya29'' \<noteq> []"
    by (simp_all add: sample_google_def)
  have uploads: "list_all2 (\<lambda>file fileId. \<exists>response result.
        fetch_upload sample_google ''ya29'' (gf_name file) (fb_blob file) = Inr response \<and>
        resp_ok response \<and> resp_json response = Inr result \<and> body_id result = fileId)
      [sample_file ''essay.txt'' ''Dear reader'', sample_file ''notes.md'' ''# Notes'']
      [''drive-essay.txt'', ''drive-notes.md'']"
    by (simp add: sample_google_def sample_file_def)
  have modify: "modifyAttachments sample_google ''c1'' ''w2'' ''s2''
                  [''drive-essay.txt'', ''drive-notes.md''] = Inr ()"
    by (simp add: sample_google_def)
  have turn: "turnIn sample_google ''c1'' ''w2'' ''s2'' = Inr ()"
    by (simp add: sample_google_def)
  show ?thesis
    using token(1) submitAssignment_two_step [OF token uploads modify turn, of "[1, 0]"]
    by (simp add: sample_file_def)
qed

text \<open>
  Claim C3. If the upload of any one file fails, because there is no access token or
  because the Drive endpoint answers with a response that is not ok, \<open>submitAssignment\<close>
  rejects with an error, and the only calls it has issued are Drive uploads: neither
  \<open>modifyAttachments\<close> nor \<open>turnIn\<close> is issued, so the submission is left as it was.
\<close>

theorem submitAssignment_upload_failure:
  assumes "file \<in> set files"
    and "getAccessToken env = None \<or>
         (\<exists>token response. getAccessToken env = Some token \<and>
            fetch_upload env token (gf_name file) (fb_blob file) = Inr response \<and>
            \<not> resp_ok response)"
  shows "(\<exists>e. fst (submitAssignment env order courseId courseWorkId submissionId files) = Inl e) \<and>
         (\<forall>call \<in> set (snd (submitAssignment env order courseId courseWorkId submissionId files)).
            \<exists>token name b. call = DriveUpload token name b)"
proof -
  obtain e where "fst (uploadFileToDrive env file) = Inl e"
    using uploadFileToDrive_fails [OF assms(2)] by blast
  with assms(1) have "Inl e \<in> set (map fst (map (uploadFileToDrive env) files))"
    by force
  then obtain e' where rej: "promise_all order (map fst (map (uploadFileToDrive env) files)) = Inl e'"
    using promise_all_rejects by blast
  have res: "submitAssignment env order courseId courseWorkId submissionId files =
          (Inl e', concat (map snd (map (uploadFileToDrive env) files)))"
    unfolding submitAssignment_def Let_def rej by simp
  show ?thesis
    unfolding res using uploadFileToDrive_calls by fastforce
qed

theorem submitAssignment_upload_failure_witness:
  "sample_file ''rejected.txt'' ''x'' \<in>
     set [sample_file ''essay.txt'' ''Dear reader'', sample_file ''rejected.txt'' ''x''] \<and>
   \<not> resp_ok (projr (fetch_upload sample_google ''ya29'' ''rejected.txt'' (text_blob ''x''))) \<and>
   submitAssignment sample_google [0, 1] ''c1'' ''w2'' ''s2''
       [sample_file ''essay.txt'' ''Dear reader'', sample_file ''rejected.txt'' ''x''] =
     (Inl (Error ''Google Drive upload failed: Quota exceeded''),
      [DriveUpload ''ya29'' ''essay.txt'' (text_blob ''Dear reader''),
       DriveUpload ''ya29'' ''rejected.txt'' (text_blob ''x'')])"
proof -
  have mem: "sample_file ''rejected.txt'' ''x'' \<in>
      set [sample_file ''essay.txt'' ''Dear reader'', sample_file ''rejected.txt'' ''x'']"
    by simp
  have fails: "getAccessToken sample_google = None \<or>
      (\<exists>token response. getAccessToken sample_google = Some token \<and>
         fetch_upload sample_google token (gf_name (sample_file ''rejected.txt'' ''x''))
           (fb_blob (sample_file ''rejected.txt'' ''x'')) = Inr response \<and>
         \<not> resp_ok response)"
    by (simp add: sample_google_def sample_file_def)
  show ?thesis
    using submitAssignment_upload_failure [OF mem fails, of "[0, 1]" "''c1''" "''w2''" "''s2''"]
    by (simp add: submitAssignment_def uploadFileToDrive_def promise_all_def settle_order_def
        sample_google_def sample_file_def)
qed


subsection \<open>Submitting without a submission\<close>

text \<open>
  Claim C10. If the selected assignment has no \<open>studentSubmissionId\<close>, \<open>handleSubmit\<close> only
  sets the error message and \<open>Status.ERROR\<close>: the rest of the state is untouched,
  \<open>submitAssignment\<close> is not invoked and no Drive or Classroom call is issued.
\<close>

theorem handleSubmit_missing_submission:
  "a_studentSubmissionId a = None \<Longrightarrow>
     handleSubmit env order c a st =
       (st\<lparr>v_error := Some ''Cannot submit: Student submission details are missing.'',
           v_status := ERROR\<rparr>, [])"
  by (simp add: handleSubmit_def submission_missing_def)

theorem handleSubmit_missing_submission_witness:
  "a_studentSubmissionId sample_assignment = None \<and>
   handleSubmit sample_google [0] sample_course sample_assignment sample_view =
     (sample_view\<lparr>v_error := Some ''Cannot submit: Student submission details are missing.'',
                  v_status := ERROR\<rparr>, [])"
  using handleSubmit_missing_submission [of sample_assignment sample_google "[0]" sample_course sample_view]
  by (simp add: sample_assignment_def)


subsection \<open>Reading attachments\<close>

lemma getAttachmentContent_resolves:
  "\<exists>content. fst (getAttachmentContent env fileId mimeType) = Inr content"
  by (cases "getAttachmentContent_try env fileId mimeType")
     (auto simp: getAttachmentContent_def split: sum.splits)


lemma map_of_three:
  "map_of [(k1, v1), (k2, v2), (k3, v3)] k =
     (if k = k1 then Some v1 else if k = k2 then Some v2 else if k = k3 then Some v3 else None)"
  by simp

lemma startsWith_image: "startsWith s ''image/'' \<Longrightarrow> \<exists>rest. s = CHR ''i'' # CHR ''m'' # rest"
  by (cases s; cases "tl s") (auto simp: startsWith_def)


lemma member_not_image: "m \<in> set object_prototype_members \<Longrightarrow> \<not> startsWith m ''image/''"
proof
  assume m: "m \<in> set object_prototype_members" and "startsWith m ''image/''"
  then obtain rest where "m = CHR ''i'' # CHR ''m'' # rest"
    using startsWith_image by blast
  with m show False
    by (simp add: object_prototype_members_def)
qed

lemma table_keys:
  "map_of googleMimeTypes ''application/vnd.google-apps.document'' = Some ''text/plain''"
  "map_of googleMimeTypes ''application/vnd.google-apps.spreadsheet'' = Some ''text/csv''"
  "map_of googleMimeTypes ''application/vnd.google-apps.presentation'' = Some ''text/plain''"
  unfolding googleMimeTypes_def map_of_three by simp_all

lemma not_table_key:
  "mimeType \<noteq> ''application/vnd.google-apps.document'' \<Longrightarrow>
   mimeType \<noteq> ''application/vnd.google-apps.spreadsheet'' \<Longrightarrow>
   mimeType \<noteq> ''application/vnd.google-apps.presentation'' \<Longrightarrow>
   map_of googleMimeTypes mimeType = None"
  unfolding googleMimeTypes_def map_of_three by simp

lemma not_table_key_hd: "hd mimeType \<noteq> CHR ''a'' \<Longrightarrow> map_of googleMimeTypes mimeType = None"
  by (intro not_table_key) auto

lemma googleMimeTypes_lookup:
  "googleMimeTypes_at ''application/vnd.google-apps.document'' = Some (ExportAs ''text/plain'')"
  "googleMimeTypes_at ''application/vnd.google-apps.spreadsheet'' = Some (ExportAs ''text/csv'')"
  "googleMimeTypes_at ''application/vnd.google-apps.presentation'' = Some (ExportAs ''text/plain'')"
  by (simp_all add: googleMimeTypes_at_def table_keys)


lemma googleMimeTypes_other:
  "mimeType \<noteq> ''application/vnd.google-apps.document'' \<Longrightarrow>
   mimeType \<noteq> ''application/vnd.google-apps.spreadsheet'' \<Longrightarrow>
   mimeType \<noteq> ''application/vnd.google-apps.presentation'' \<Longrightarrow>
   mimeType \<notin> set object_prototype_members \<Longrightarrow>
   googleMimeTypes_at mimeType = None"
  by (simp add: googleMimeTypes_at_def not_table_key)

lemma googleMimeTypes_image:
  assumes "startsWith mimeType ''image/''"
  shows "googleMimeTypes_at mimeType = None"
proof -
  obtain rest where "mimeType = CHR ''i'' # CHR ''m'' # rest"
    using startsWith_image [OF assms] by blast
  then have "hd mimeType \<noteq> CHR ''a''"
    by simp
  then show ?thesis
    using member_not_image [of mimeType] assms
    by (auto simp: googleMimeTypes_at_def not_table_key_hd)
qed

lemma googleMimeTypes_pdf: "googleMimeTypes_at ''application/pdf'' = None"
  by (intro googleMimeTypes_other) (simp_all add: object_prototype_members_def)

lemma getAttachmentContent_export:
  "googleMimeTypes_at mimeType = Some exportType \<Longrightarrow>
   fst (getAttachmentContent env fileId mimeType) =
     Inr (case drive_files_export env fileId exportType of
            Inl e \<Rightarrow> error_reading | Inr body \<Rightarrow> body)"
  by (simp add: getAttachmentContent_def getAttachmentContent_try_def split: sum.splits)


lemma getAttachmentContent_media:
  "googleMimeTypes_at mimeType = None \<Longrightarrow>
   startsWith mimeType ''image/'' \<or> mimeType = ''application/pdf'' \<Longrightarrow>
   fst (getAttachmentContent env fileId mimeType) =
     Inr (case drive_files_get_media env fileId of
            Inl e \<Rightarrow> error_reading
          | Inr media \<Rightarrow>
              if length media > 3 * 1024 * 1024 then too_large mimeType
              else (case btoa env media of
                      Inl e \<Rightarrow> error_reading
                    | Inr base64Data \<Rightarrow> ''data:'' @ mimeType @ '';base64,'' @ base64Data))"
  by (simp add: getAttachmentContent_def getAttachmentContent_try_def Let_def split: sum.splits)

lemma getAttachmentContent_unreadable:
  "googleMimeTypes_at mimeType = None \<Longrightarrow>
   \<not> startsWith mimeType ''image/'' \<Longrightarrow> mimeType \<noteq> ''application/pdf'' \<Longrightarrow>
   getAttachmentContent env fileId mimeType = (Inr (cannot_be_read mimeType), [])"
  by (simp add: getAttachmentContent_def getAttachmentContent_try_def Let_def)

lemma readable_lookup:
  "startsWith mimeType ''image/'' \<or> mimeType = ''application/pdf'' \<Longrightarrow>
   googleMimeTypes_at mimeType = None"
  by (auto simp: googleMimeTypes_image googleMimeTypes_pdf)

text \<open>
  What \<open>getAttachmentContent\<close> resolves with, case by case. It never rejects. For a mime
  type that is neither a key of the table, nor an image or a PDF, nor the name of a member
  of \<open>Object.prototype\<close>, it resolves with the "cannot be read" sentinel.
\<close>

lemma getAttachmentContent_cases:
  "(\<exists>content. fst (getAttachmentContent env fileId mimeType) = Inr content) \<and>
   (mimeType = ''application/vnd.google-apps.document'' \<and>
      drive_files_export env fileId (ExportAs ''text/plain'') = Inr body \<longrightarrow>
        fst (getAttachmentContent env fileId mimeType) = Inr body) \<and>
   (mimeType = ''application/vnd.google-apps.spreadsheet'' \<and>
      drive_files_export env fileId (ExportAs ''text/csv'') = Inr body \<longrightarrow>
        fst (getAttachmentContent env fileId mimeType) = Inr body) \<and>
   (mimeType = ''application/vnd.google-apps.presentation'' \<and>
      drive_files_export env fileId (ExportAs ''text/plain'') = Inr body \<longrightarrow>
        fst (getAttachmentContent env fileId mimeType) = Inr body) \<and>
   ((startsWith mimeType ''image/'' \<or> mimeType = ''application/pdf'') \<and>
      drive_files_get_media env fileId = Inr media \<and> length media \<le> 3 * 1024 * 1024 \<and>
      btoa env media = Inr base64Data \<longrightarrow>
        fst (getAttachmentContent env fileId mimeType) =
          Inr (''data:'' @ mimeType @ '';base64,'' @ base64Data)) \<and>
   ((startsWith mimeType ''image/'' \<or> mimeType = ''application/pdf'') \<and>
      drive_files_get_media env fileId = Inr media \<and> length media > 3 * 1024 * 1024 \<longrightarrow>
        fst (getAttachmentContent env fileId mimeType) =
          Inr (''[Content of file type ('' @ mimeType @
               '') is too large to be read by the assistant.]'')) \<and>
   (mimeType \<notin> {''application/vnd.google-apps.document'',
                  ''application/vnd.google-apps.spreadsheet'',
                  ''application/vnd.google-apps.presentation'', ''application/pdf''} \<and>
      mimeType \<notin> set object_prototype_members \<and>
      \<not> startsWith mimeType ''image/'' \<longrightarrow>
        fst (getAttachmentContent env fileId mimeType) =
          Inr (''[Content of file type ('' @ mimeType @
               '') cannot be read by the assistant.]'')) \<and>
   ((mimeType = ''application/vnd.google-apps.document'' \<and>
       drive_files_export env fileId (ExportAs ''text/plain'') = Inl e) \<or>
    (mimeType = ''application/vnd.google-apps.spreadsheet'' \<and>
       drive_files_export env fileId (ExportAs ''text/csv'') = Inl e) \<or>
    (mimeType = ''application/vnd.google-apps.presentation'' \<and>
       drive_files_export env fileId (ExportAs ''text/plain'') = Inl e) \<or>
    ((startsWith mimeType ''image/'' \<or> mimeType = ''application/pdf'') \<and>
       (drive_files_get_media env fileId = Inl e \<or>
        (drive_files_get_media env fileId = Inr media \<and> length media \<le> 3 * 1024 * 1024 \<and>
         btoa env media = Inl e))) \<longrightarrow>
        fst (getAttachmentContent env fileId mimeType) = Inr ''[Error reading attachment content.]'')"
proof (intro conjI impI)
  show "\<exists>content. fst (getAttachmentContent env fileId mimeType) = Inr content"
    by (rule getAttachmentContent_resolves)
next
  assume "mimeType = ''application/vnd.google-apps.document'' \<and>
          drive_files_export env fileId (ExportAs ''text/plain'') = Inr body"
  then show "fst (getAttachmentContent env fileId mimeType) = Inr body"
    by (simp add: getAttachmentContent_export [OF googleMimeTypes_lookup(1)])
next
  assume "mimeType = ''application/vnd.google-apps.spreadsheet'' \<and>
          drive_files_export env fileId (ExportAs ''text/csv'') = Inr body"
  then show "fst (getAttachmentContent env fileId mimeType) = Inr body"
    by (simp add: getAttachmentContent_export [OF googleMimeTypes_lookup(2)])
next
  assume "mimeType = ''application/vnd.google-apps.presentation'' \<and>
          drive_files_export env fileId (ExportAs ''text/plain'') = Inr body"
  then show "fst (getAttachmentContent env fileId mimeType) = Inr body"
    by (simp add: getAttachmentContent_export [OF googleMimeTypes_lookup(3)])
next
  assume a: "(startsWith mimeType ''image/'' \<or> mimeType = ''application/pdf'') \<and>
      drive_files_get_media env fileId = Inr media \<and> length media \<le> 3 * 1024 * 1024 \<and>
      btoa env media = Inr base64Data"
  then have "googleMimeTypes_at mimeType = None"
    by (intro readable_lookup) (rule conjunct1)
  from getAttachmentContent_media [OF this, of env fileId] a
  show "fst (getAttachmentContent env fileId mimeType) =
          Inr (''data:'' @ mimeType @ '';base64,'' @ base64Data)"
    by simp
next
  assume a: "(startsWith mimeType ''image/'' \<or> mimeType = ''application/pdf'') \<and>
      drive_files_get_media env fileId = Inr media \<and> length media > 3 * 1024 * 1024"
  then have "googleMimeTypes_at mimeType = None"
    by (intro readable_lookup) (rule conjunct1)
  from getAttachmentContent_media [OF this, of env fileId] a
  show "fst (getAttachmentContent env fileId mimeType) =
          Inr (''[Content of file type ('' @ mimeType @
               '') is too large to be read by the assistant.]'')"
    by (simp add: too_large_def)
next
  assume a: "mimeType \<notin> {''application/vnd.google-apps.document'',
                  ''application/vnd.google-apps.spreadsheet'',
                  ''application/vnd.google-apps.presentation'', ''application/pdf''} \<and>
      mimeType \<notin> set object_prototype_members \<and>
      \<not> startsWith mimeType ''image/''"
  then have "googleMimeTypes_at mimeType = None"
    by (intro googleMimeTypes_other) simp_all
  from getAttachmentContent_unreadable [OF this, of env fileId] a
  show "fst (getAttachmentContent env fileId mimeType) =
          Inr (''[Content of file type ('' @ mimeType @
               '') cannot be read by the assistant.]'')"
    by (simp add: cannot_be_read_def)
next
  assume a: "(mimeType = ''application/vnd.google-apps.document'' \<and>
       drive_files_export env fileId (ExportAs ''text/plain'') = Inl e) \<or>
    (mimeType = ''application/vnd.google-apps.spreadsheet'' \<and>
       drive_files_export env fileId (ExportAs ''text/csv'') = Inl e) \<or>
    (mimeType = ''application/vnd.google-apps.presentation'' \<and>
       drive_files_export env fileId (ExportAs ''text/plain'') = Inl e) \<or>
    ((startsWith mimeType ''image/'' \<or> mimeType = ''application/pdf'') \<and>
       (drive_files_get_media env fileId = Inl e \<or>
        (drive_files_get_media env fileId = Inr media \<and> length media \<le> 3 * 1024 * 1024 \<and>
         btoa env media = Inl e)))"
  have doc: "mimeType = ''application/vnd.google-apps.document'' \<Longrightarrow>
       drive_files_export env fileId (ExportAs ''text/plain'') = Inl e \<Longrightarrow>
       fst (getAttachmentContent env fileId mimeType) = Inr error_reading"
    by (simp add: getAttachmentContent_export [OF googleMimeTypes_lookup(1)])
  have sheet: "mimeType = ''application/vnd.google-apps.spreadsheet'' \<Longrightarrow>
       drive_files_export env fileId (ExportAs ''text/csv'') = Inl e \<Longrightarrow>
       fst (getAttachmentContent env fileId mimeType) = Inr error_reading"
    by (simp add: getAttachmentContent_export [OF googleMimeTypes_lookup(2)])
  have slides: "mimeType = ''application/vnd.google-apps.presentation'' \<Longrightarrow>
       drive_files_export env fileId (ExportAs ''text/plain'') = Inl e \<Longrightarrow>
       fst (getAttachmentContent env fileId mimeType) = Inr error_reading"
    by (simp add: getAttachmentContent_export [OF googleMimeTypes_lookup(3)])
  have media: "startsWith mimeType ''image/'' \<or> mimeType = ''application/pdf'' \<Longrightarrow>
       drive_files_get_media env fileId = Inl e \<or>
       (drive_files_get_media env fileId = Inr media \<and> length media \<le> 3 * 1024 * 1024 \<and>
        btoa env media = Inl e) \<Longrightarrow>
       fst (getAttachmentContent env fileId mimeType) = Inr error_reading"
    using getAttachmentContent_media [OF readable_lookup, of mimeType env fileId] by auto
  from a doc sheet slides media
  have "fst (getAttachmentContent env fileId mimeType) = Inr error_reading"
    by blast
  then show "fst (getAttachmentContent env fileId mimeType) =
               Inr ''[Error reading attachment content.]''"
    by (simp add: error_reading_def)
qed





subsection \<open>The attachment effect\<close>










subsection \<open>Generated files\<close>

lemma js_split_nonempty: "js_split sep s \<noteq> []"
  by (induction s) (auto split: list.splits)

lemma js_join_Cons: "parts \<noteq> [] \<Longrightarrow> js_join sep (part # parts) = part @ sep @ js_join sep parts"
  by (cases parts) auto

lemma js_split_no_sep: "sep \<notin> set s \<Longrightarrow> js_split sep s = [s]"
  by (induction s) auto

lemma js_split_append:
  "js_split sep (pre @ sep # suf) = js_split sep pre @ js_split sep suf"
proof (induction pre)
  case Nil
  then show ?case by simp
next
  case (Cons c pre)
  obtain part parts where "js_split sep pre = part # parts"
    using js_split_nonempty [of sep pre] by (cases "js_split sep pre") auto
  with Cons show ?case by simp
qed

lemma js_join_split: "js_join [sep] (js_split sep s) = s"
proof (induction s)
  case Nil
  then show ?case by simp
next
  case (Cons c s)
  obtain part parts where sp: "js_split sep s = part # parts"
    using js_split_nonempty [of sep s] by (cases "js_split sep s") auto
  show ?case
  proof (cases "c = sep")
    case True
    then show ?thesis
      using Cons js_split_nonempty [of sep s] by (simp add: js_join_Cons)
  next
    case False
    then show ?thesis
      using Cons sp by (cases parts) auto
  qed
qed

lemma slice_0_minus_1_butlast: "slice_0_minus_1 xs = butlast xs"
  by (simp add: slice_0_minus_1_def butlast_conv_take)

lemma pdf_name_before_last_dot: "pdf_name name = before_last_dot name @ ''.pdf''"
proof (cases "CHR ''.'' \<in> set name")
  case True
  then obtain pre suf where name: "name = pre @ CHR ''.'' # suf" and suf: "CHR ''.'' \<notin> set suf"
    using split_list_last by fastforce
  have "js_join ''.'' (butlast (js_split (CHR ''.'') name)) = pre"
    by (simp add: name js_split_append js_split_no_sep [OF suf] js_join_split)
  moreover have "dropWhile (\<lambda>c. c \<noteq> CHR ''.'') (rev name) = CHR ''.'' # rev pre"
    using suf by (simp add: name dropWhile_append3 dropWhile_append)
  ultimately show ?thesis
    using True by (simp add: pdf_name_def before_last_dot_def slice_0_minus_1_butlast)
next
  case False
  then show ?thesis
    by (simp add: pdf_name_def before_last_dot_def slice_0_minus_1_butlast js_split_no_sep)
qed

lemma pdf_name_examples:
  "pdf_name ''notes.final.txt'' = ''notes.final.pdf''"
  "pdf_name ''README'' = ''.pdf''"
  by (simp_all add: pdf_name_def slice_0_minus_1_def)


lemma zip_file_fresh:
  "name \<notin> fst ` set archive \<Longrightarrow> zip_file archive name data = archive @ [(name, data)]"
  by (simp add: zip_file_def)

lemma zip_entries_distinct:
  "distinct (map gf_name fileBlobs) \<Longrightarrow>
   zip_entries fileBlobs = map (\<lambda>fb. (gf_name fb, fb_blob fb)) fileBlobs"
proof -
  have "distinct (map gf_name fileBlobs) \<Longrightarrow> gf_name ` set fileBlobs \<inter> fst ` set acc = {} \<Longrightarrow>
        fold (\<lambda>file archive. zip_file archive (gf_name file) (fb_blob file)) fileBlobs acc =
          acc @ map (\<lambda>fb. (gf_name fb, fb_blob fb)) fileBlobs" for acc
  proof (induction fileBlobs arbitrary: acc)
    case Nil
    then show ?case by simp
  next
    case (Cons fb fbs)
    have fresh: "gf_name fb \<notin> fst ` set acc"
      using Cons.prems(2) by auto
    have "gf_name ` set fbs \<inter> fst ` set (acc @ [(gf_name fb, fb_blob fb)]) = {}"
      using Cons.prems by auto
    with Cons.IH [of "acc @ [(gf_name fb, fb_blob fb)]"] Cons.prems(1) show ?case
      by (simp add: zip_file_fresh [OF fresh])
  qed
  from this [of "[]"] show "distinct (map gf_name fileBlobs) \<Longrightarrow> ?thesis"
    by (simp add: zip_entries_def)
qed

lemma make_file_blob_generated:
  "make_file_blob env font file = Inr fb \<Longrightarrow> generated_from env font file fb"
  by (auto simp: make_file_blob_def generated_from_def createHandwrittenPdf_def
      pdf_name_before_last_dot generated_file.defs file_blob.defs
      split: if_splits sum.splits)

lemma make_file_blobs_generated:
  "map (make_file_blob env font) files = map Inr fileBlobs \<Longrightarrow>
   list_all2 (generated_from env font) files fileBlobs"
proof (induction files arbitrary: fileBlobs)
  case Nil
  then show ?case by simp
next
  case (Cons f fs)
  then show ?case
    by (cases fileBlobs) (auto simp: make_file_blob_generated)
qed

lemma make_file_blobs_ok:
  assumes "\<forall>file \<in> set files. gf_handwritten file \<longrightarrow>
             (\<exists>b. jsPDF_output env (gf_content file) font = Inr b)"
  shows "\<exists>fileBlobs. map (make_file_blob env font) files = map Inr fileBlobs"
  using assms
proof (induction files)
  case Nil
  then show ?case by simp
next
  case (Cons f fs)
  then obtain fbs where fbs: "map (make_file_blob env font) fs = map Inr fbs"
    by auto
  obtain fb where "make_file_blob env font f = Inr fb"
    using Cons.prems by (cases "gf_handwritten f")
      (auto simp: make_file_blob_def createHandwrittenPdf_def)
  with fbs show ?case
    by (intro exI [of _ "fb # fbs"]) simp
qed

text \<open>What a run of the \<open>try\<close> block and its \<open>catch\<close> gives once the files are made.\<close>

lemma solve_run:
  assumes "generateContent env = Inr text" "parse_files env text = Inr files"
    and "map (make_file_blob env (v_selectedFont st)) files = map Inr fileBlobs"
  shows "solve_catch (solve_try env order st) =
           (if length fileBlobs > 1
            then (case zip_generateAsync env (zip_entries fileBlobs) of
                    Inr content \<Rightarrow>
                      st\<lparr>v_status := DONE, v_generatedFiles := fileBlobs, v_zipBlob := Some content\<rparr>
                  | Inl e \<Rightarrow>
                      st\<lparr>v_status := ERROR, v_generatedFiles := fileBlobs,
                          v_error := Some failed_to_solve\<rparr>)
            else st\<lparr>v_status := DONE, v_generatedFiles := fileBlobs\<rparr>,
            [GenerateContent])"
  using assms(1,2)
  by (simp add: solve_try_def solve_catch_def Let_def assms(3) promise_all_map_Inr
      split: sum.splits)

lemma handleSolve_as_catch:
  "handleSolve_v2 env order st =
     solve_catch (solve_try env order
       (st\<lparr>v_status := SOLVING, v_error := None, v_generatedFiles := [],
           v_zipBlob := None, v_driveFileLinks := []\<rparr>))"
  "\<not> startsWith key ''YOUR_'' \<Longrightarrow>
   handleSolve_v1 env key order st =
     solve_catch (solve_try env order
       (st\<lparr>v_status := SOLVING, v_error := None, v_generatedFiles := [],
           v_zipBlob := None, v_submissionStatus := SUBMISSION_IDLE\<rparr>))"
  by (simp_all add: handleSolve_v2_def handleSolve_v1_def)

lemma handleSolve_runs:
  assumes "generateContent env = Inr text" "parse_files env text = Inr files"
    and "map (make_file_blob env (v_selectedFont st)) files = map Inr fileBlobs"
  shows "handleSolve_v2 env order st =
           (if length fileBlobs > 1
            then (case zip_generateAsync env (zip_entries fileBlobs) of
                    Inr content \<Rightarrow>
                      st\<lparr>v_status := DONE, v_error := None, v_generatedFiles := fileBlobs,
                          v_zipBlob := Some content, v_driveFileLinks := []\<rparr>
                  | Inl e \<Rightarrow>
                      st\<lparr>v_status := ERROR, v_error := Some failed_to_solve,
                          v_generatedFiles := fileBlobs, v_zipBlob := None,
                          v_driveFileLinks := []\<rparr>)
            else st\<lparr>v_status := DONE, v_error := None, v_generatedFiles := fileBlobs,
                    v_zipBlob := None, v_driveFileLinks := []\<rparr>,
            [GenerateContent])"
    and "\<not> startsWith key ''YOUR_'' \<Longrightarrow>
         handleSolve_v1 env key order st =
           (if length fileBlobs > 1
            then (case zip_generateAsync env (zip_entries fileBlobs) of
                    Inr content \<Rightarrow>
                      st\<lparr>v_status := DONE, v_error := None, v_generatedFiles := fileBlobs,
                          v_zipBlob := Some content, v_submissionStatus := SUBMISSION_IDLE\<rparr>
                  | Inl e \<Rightarrow>
                      st\<lparr>v_status := ERROR, v_error := Some failed_to_solve,
                          v_generatedFiles := fileBlobs, v_zipBlob := None,
                          v_submissionStatus := SUBMISSION_IDLE\<rparr>)
            else st\<lparr>v_status := DONE, v_error := None, v_generatedFiles := fileBlobs,
                    v_zipBlob := None, v_submissionStatus := SUBMISSION_IDLE\<rparr>,
            [GenerateContent])"
proof -
  have v2: "map (make_file_blob env (v_selectedFont
              (st\<lparr>v_status := SOLVING, v_error := None, v_generatedFiles := [],
                  v_zipBlob := None, v_driveFileLinks := []\<rparr>))) files = map Inr fileBlobs"
    using assms(3) by simp
  show "handleSolve_v2 env order st =
           (if length fileBlobs > 1
            then (case zip_generateAsync env (zip_entries fileBlobs) of
                    Inr content \<Rightarrow>
                      st\<lparr>v_status := DONE, v_error := None, v_generatedFiles := fileBlobs,
                          v_zipBlob := Some content, v_driveFileLinks := []\<rparr>
                  | Inl e \<Rightarrow>
                      st\<lparr>v_status := ERROR, v_error := Some failed_to_solve,
                          v_generatedFiles := fileBlobs, v_zipBlob := None,
                          v_driveFileLinks := []\<rparr>)
            else st\<lparr>v_status := DONE, v_error := None, v_generatedFiles := fileBlobs,
                    v_zipBlob := None, v_driveFileLinks := []\<rparr>,
            [GenerateContent])"
    unfolding handleSolve_as_catch(1) solve_run [OF assms(1,2) v2]
    by (simp split: sum.splits)
next
  assume key: "\<not> startsWith key ''YOUR_''"
  have v1: "map (make_file_blob env (v_selectedFont
              (st\<lparr>v_status := SOLVING, v_error := None, v_generatedFiles := [],
                  v_zipBlob := None, v_submissionStatus := SUBMISSION_IDLE\<rparr>))) files =
            map Inr fileBlobs"
    using assms(3) by simp
  show "handleSolve_v1 env key order st =
           (if length fileBlobs > 1
            then (case zip_generateAsync env (zip_entries fileBlobs) of
                    Inr content \<Rightarrow>
                      st\<lparr>v_status := DONE, v_error := None, v_generatedFiles := fileBlobs,
                          v_zipBlob := Some content, v_submissionStatus := SUBMISSION_IDLE\<rparr>
                  | Inl e \<Rightarrow>
                      st\<lparr>v_status := ERROR, v_error := Some failed_to_solve,
                          v_generatedFiles := fileBlobs, v_zipBlob := None,
                          v_submissionStatus := SUBMISSION_IDLE\<rparr>)
            else st\<lparr>v_status := DONE, v_error := None, v_generatedFiles := fileBlobs,
                    v_zipBlob := None, v_submissionStatus := SUBMISSION_IDLE\<rparr>,
            [GenerateContent])"
    unfolding handleSolve_as_catch(2) [OF key] solve_run [OF assms(1,2) v1]
    by (simp split: sum.splits)
qed

lemma handleSolve_generated:
  assumes "generateContent env = Inr text" "parse_files env text = Inr files"
    and "map (make_file_blob env (v_selectedFont st)) files = map Inr fileBlobs"
    and "\<not> startsWith key ''YOUR_''"
  shows "v_generatedFiles (fst (handleSolve_v1 env key order st)) = fileBlobs"
    and "v_generatedFiles (fst (handleSolve_v2 env order st)) = fileBlobs"
  unfolding handleSolve_runs(2) [OF assms(1,2,3,4)] handleSolve_runs(1) [OF assms(1,2,3)]
  by (simp_all split: sum.splits)

text \<open>
  What holds of the zip blob: when the files are made and \<open>zip.generateAsync\<close> resolves,
  either revision ends in \<open>Status.DONE\<close>, with a zip blob exactly when the reply held more
  than one file; the blob is the one made from the archive, and when the final names are
  pairwise distinct the archive holds every generated file under its final name.
\<close>

lemma handleSolve_zip:
  assumes "generateContent env = Inr text" "parse_files env text = Inr files"
    and "map (make_file_blob env (v_selectedFont st)) files = map Inr fileBlobs"
    and "\<not> startsWith key ''YOUR_''"
    and "zip_generateAsync env (zip_entries fileBlobs) = Inr content"
    and "run \<in> {handleSolve_v1 env key order st, handleSolve_v2 env order st}"
  shows "v_status (fst run) = DONE \<and> v_generatedFiles (fst run) = fileBlobs \<and>
         v_zipBlob (fst run) = (if length files > 1 then Some content else None) \<and>
         (distinct (map gf_name fileBlobs) \<longrightarrow>
            zip_entries fileBlobs = map (\<lambda>fb. (gf_name fb, fb_blob fb)) fileBlobs)"
proof -
  have len: "length fileBlobs = length files"
    using arg_cong [OF assms(3), of length] by simp
  consider (v1) "run = handleSolve_v1 env key order st" | (v2) "run = handleSolve_v2 env order st"
    using assms(6) by blast
  then show ?thesis
  proof cases
    case v1
    show ?thesis
      unfolding v1 handleSolve_runs(2) [OF assms(1,2,3,4)]
      by (simp add: assms(5) len zip_entries_distinct)
  next
    case v2
    show ?thesis
      unfolding v2 handleSolve_runs(1) [OF assms(1,2,3)]
      by (simp add: assms(5) len zip_entries_distinct)
  qed
qed

lemma sample_runs:
  "fst (handleSolve_v2 sample_solver [1, 0] sample_idle) =
     sample_idle\<lparr>v_status := DONE,
       v_generatedFiles :=
         [\<lparr>gf_name = ''notes.final.pdf'', gf_content = ''Dear diary'', gf_handwritten = True,
           fb_blob = \<lparr>blob_parts = ''Caveat:Dear diary'', blob_type = ''application/pdf''\<rparr>\<rparr>,
          \<lparr>gf_name = ''script.py'', gf_content = ''print(1)'', gf_handwritten = False,
           fb_blob = \<lparr>blob_parts = ''print(1)'', blob_type = ''text/plain;charset=utf-8''\<rparr>\<rparr>],
       v_zipBlob := Some \<lparr>blob_parts = ''notes.final.pdfscript.py'', blob_type = ''application/zip''\<rparr>\<rparr>"
  "fst (handleSolve_v1 sample_solver ''AIza'' [1, 0] sample_idle) =
     fst (handleSolve_v2 sample_solver [1, 0] sample_idle)"
  "fst (handleSolve_v1 sample_solver_single ''AIza'' [0] sample_idle) =
     sample_idle\<lparr>v_status := DONE,
       v_generatedFiles :=
         [\<lparr>gf_name = ''.pdf'', gf_content = ''Hello'', gf_handwritten = True,
           fb_blob = \<lparr>blob_parts = ''Caveat:Hello'', blob_type = ''application/pdf''\<rparr>\<rparr>]\<rparr>"
  by (simp_all add: handleSolve_v2_def handleSolve_v1_def startsWith_def solve_catch_def
      solve_try_def promise_all_def settle_order_def make_file_blob_def createHandwrittenPdf_def
      zip_entries_def zip_file_def sample_solver_def sample_solver_single_def sample_idle_def
      pdf_name_examples generated_file.defs file_blob.defs)

text \<open>
  Claim C4 says that for two or more generated files all of them, under their final
  names, are packaged into one zip blob. The code does not do so when two final names
  coincide: for the reply \<open>a.txt\<close> and \<open>a.md\<close>, both handwritten, the run ends in
  \<open>Status.DONE\<close> with two generated files, both named \<open>a.pdf\<close>, and the zip blob is made
  from an archive of one entry, which holds the second file only.
\<close>

theorem colliding_names_zip_one_file:
  "v_status (fst (handleSolve_v2 sample_solver_clash [0, 1] sample_idle)) = DONE \<and>
   v_generatedFiles (fst (handleSolve_v2 sample_solver_clash [0, 1] sample_idle)) =
     [\<lparr>gf_name = ''a.pdf'', gf_content = ''one'', gf_handwritten = True,
       fb_blob = \<lparr>blob_parts = ''Caveat:one'', blob_type = ''application/pdf''\<rparr>\<rparr>,
      \<lparr>gf_name = ''a.pdf'', gf_content = ''two'', gf_handwritten = True,
       fb_blob = \<lparr>blob_parts = ''Caveat:two'', blob_type = ''application/pdf''\<rparr>\<rparr>] \<and>
   zip_entries (v_generatedFiles (fst (handleSolve_v2 sample_solver_clash [0, 1] sample_idle))) =
     [(''a.pdf'', \<lparr>blob_parts = ''Caveat:two'', blob_type = ''application/pdf''\<rparr>)] \<and>
   v_zipBlob (fst (handleSolve_v2 sample_solver_clash [0, 1] sample_idle)) =
     Some \<lparr>blob_parts = ''a.pdf'', blob_type = ''application/zip''\<rparr> \<and>
   zip_generateAsync sample_solver_clash
       [(''a.pdf'', \<lparr>blob_parts = ''Caveat:two'', blob_type = ''application/pdf''\<rparr>)] =
     Inr \<lparr>blob_parts = ''a.pdf'', blob_type = ''application/zip''\<rparr>"
  by (simp add: handleSolve_v2_def solve_catch_def solve_try_def promise_all_def settle_order_def
      make_file_blob_def createHandwrittenPdf_def zip_entries_def zip_file_def
      sample_solver_clash_def sample_solver_def sample_idle_def pdf_name_def slice_0_minus_1_def
      generated_file.defs file_blob.defs)

text \<open>
  Claim C9. When the completion call resolves, the reply parses and the PDF of every
  handwritten file renders, \<open>handleSolve\<close> (either revision, the first with its key
  configured) sets the generated files to one file per file of the reply, in order: a
  handwritten file has become the PDF blob of its content, named by everything before its
  last dot plus \<open>.pdf\<close>; every other file has kept its name and has a \<open>text/plain\<close> blob
  of exactly its content. So \<open>notes.final.txt\<close> becomes \<open>notes.final.pdf\<close>, and a name
  without a dot becomes \<open>.pdf\<close>. The name computed by \<open>split\<close>, \<open>slice\<close> and \<open>join\<close> is
  the one the specification describes.
\<close>

theorem handleSolve_file_names:
  assumes "generateContent env = Inr text" "parse_files env text = Inr files"
    and "\<forall>file \<in> set files. gf_handwritten file \<longrightarrow>
           (\<exists>b. jsPDF_output env (gf_content file) (v_selectedFont st) = Inr b)"
    and "\<not> startsWith key ''YOUR_''"
  shows "list_all2 (generated_from env (v_selectedFont st)) files
           (v_generatedFiles (fst (handleSolve_v1 env key order st))) \<and>
         list_all2 (generated_from env (v_selectedFont st)) files
           (v_generatedFiles (fst (handleSolve_v2 env order st))) \<and>
         pdf_name name = before_last_dot name @ ''.pdf'' \<and>
         pdf_name ''notes.final.txt'' = ''notes.final.pdf'' \<and>
         (CHR ''.'' \<notin> set name \<longrightarrow> pdf_name name = ''.pdf'')"
proof -
  obtain fileBlobs where
    blobs: "map (make_file_blob env (v_selectedFont st)) files = map Inr fileBlobs"
    using make_file_blobs_ok [OF assms(3)] by blast
  have "list_all2 (generated_from env (v_selectedFont st)) files fileBlobs"
    using blobs by (rule make_file_blobs_generated)
  then show ?thesis
    by (simp add: handleSolve_generated [OF assms(1,2) blobs assms(4)]
        pdf_name_examples pdf_name_before_last_dot before_last_dot_def)
qed

theorem handleSolve_file_names_witness:
  "generateContent sample_solver = Inr ''{ files }'' \<and>
   \<not> startsWith ''AIza'' ''YOUR_'' \<and>
   list_all2 (generated_from sample_solver ''Caveat'')
     [\<lparr>gf_name = ''notes.final.txt'', gf_content = ''Dear diary'', gf_handwritten = True\<rparr>,
      \<lparr>gf_name = ''script.py'', gf_content = ''print(1)'', gf_handwritten = False\<rparr>]
     (v_generatedFiles (fst (handleSolve_v1 sample_solver ''AIza'' [1, 0] sample_idle))) \<and>
   list_all2 (generated_from sample_solver ''Caveat'')
     [\<lparr>gf_name = ''notes.final.txt'', gf_content = ''Dear diary'', gf_handwritten = True\<rparr>,
      \<lparr>gf_name = ''script.py'', gf_content = ''print(1)'', gf_handwritten = False\<rparr>]
     (v_generatedFiles (fst (handleSolve_v2 sample_solver [1, 0] sample_idle))) \<and>
   v_generatedFiles (fst (handleSolve_v1 sample_solver ''AIza'' [1, 0] sample_idle)) =
     [\<lparr>gf_name = ''notes.final.pdf'', gf_content = ''Dear diary'', gf_handwritten = True,
       fb_blob = \<lparr>blob_parts = ''Caveat:Dear diary'', blob_type = ''application/pdf''\<rparr>\<rparr>,
      \<lparr>gf_name = ''script.py'', gf_content = ''print(1)'', gf_handwritten = False,
       fb_blob = \<lparr>blob_parts = ''print(1)'', blob_type = ''text/plain;charset=utf-8''\<rparr>\<rparr>] \<and>
   CHR ''.'' \<notin> set ''README'' \<and> pdf_name ''README'' = ''.pdf''"
proof -
  have key: "\<not> startsWith ''AIza'' ''YOUR_''"
    by (simp add: startsWith_def)
  have gen: "generateContent sample_solver = Inr ''{ files }''"
    by (simp add: sample_solver_def)
  have parse: "parse_files sample_solver ''{ files }'' =
      Inr [\<lparr>gf_name = ''notes.final.txt'', gf_content = ''Dear diary'', gf_handwritten = True\<rparr>,
           \<lparr>gf_name = ''script.py'', gf_content = ''print(1)'', gf_handwritten = False\<rparr>]"
    by (simp add: sample_solver_def)
  have font: "v_selectedFont sample_idle = ''Caveat''"
    by (simp add: sample_idle_def)
  have pdfs: "\<forall>file \<in> set
      [\<lparr>gf_name = ''notes.final.txt'', gf_content = ''Dear diary'', gf_handwritten = True\<rparr>,
       \<lparr>gf_name = ''script.py'', gf_content = ''print(1)'', gf_handwritten = False\<rparr>].
        gf_handwritten file \<longrightarrow>
          (\<exists>b. jsPDF_output sample_solver (gf_content file) (v_selectedFont sample_idle) = Inr b)"
    by (simp add: sample_solver_def)
  have made: "v_generatedFiles (fst (handleSolve_v1 sample_solver ''AIza'' [1, 0] sample_idle)) =
     [\<lparr>gf_name = ''notes.final.pdf'', gf_content = ''Dear diary'', gf_handwritten = True,
       fb_blob = \<lparr>blob_parts = ''Caveat:Dear diary'', blob_type = ''application/pdf''\<rparr>\<rparr>,
      \<lparr>gf_name = ''script.py'', gf_content = ''print(1)'', gf_handwritten = False,
       fb_blob = \<lparr>blob_parts = ''print(1)'', blob_type = ''text/plain;charset=utf-8''\<rparr>\<rparr>]"
    using sample_runs(1,2) by simp
  note names = handleSolve_file_names [OF gen parse pdfs key, of "[1, 0]" "''README''"]
  have v1: "list_all2 (generated_from sample_solver ''Caveat'')
     [\<lparr>gf_name = ''notes.final.txt'', gf_content = ''Dear diary'', gf_handwritten = True\<rparr>,
      \<lparr>gf_name = ''script.py'', gf_content = ''print(1)'', gf_handwritten = False\<rparr>]
     (v_generatedFiles (fst (handleSolve_v1 sample_solver ''AIza'' [1, 0] sample_idle)))"
    using names [THEN conjunct1] by (simp only: font)
  have v2: "list_all2 (generated_from sample_solver ''Caveat'')
     [\<lparr>gf_name = ''notes.final.txt'', gf_content = ''Dear diary'', gf_handwritten = True\<rparr>,
      \<lparr>gf_name = ''script.py'', gf_content = ''print(1)'', gf_handwritten = False\<rparr>]
     (v_generatedFiles (fst (handleSolve_v2 sample_solver [1, 0] sample_idle)))"
    using names [THEN conjunct2, THEN conjunct1] by (simp only: font)
  have nodot: "CHR ''.'' \<notin> set ''README''"
    by simp
  have readme: "pdf_name ''README'' = ''.pdf''"
    using names nodot by blast
  show ?thesis
    using gen key v1 v2 made nodot readme by (intro conjI)
qed


subsection \<open>Courses and assignments\<close>

lemma or_default_nonempty: "d \<noteq> [] \<Longrightarrow> or_default v d \<noteq> []"
  by (simp add: or_default_def split: option.splits)

lemma course_with_teacher_fields:
  "\<exists>c. course_with_teacher env raw = Inr c \<and> course_fields env raw c"
  by (auto simp: course_with_teacher_def course_fields_def or_default_def
      split: sum.splits option.splits)

lemma courses_with_teachers:
  "\<exists>cs. map (course_with_teacher env) raws = map Inr cs \<and> list_all2 (course_fields env) raws cs"
proof (induction raws)
  case Nil
  then show ?case by simp
next
  case (Cons raw raws)
  then obtain cs where cs: "map (course_with_teacher env) raws = map Inr cs"
      "list_all2 (course_fields env) raws cs"
    by blast
  obtain c where c: "course_with_teacher env raw = Inr c" "course_fields env raw c"
    using course_with_teacher_fields by blast
  show ?case
    using cs c by (intro exI [of _ "c # cs"]) simp
qed

lemma getCourses_fields:
  assumes "courses_list env = Inr result"
  shows "\<exists>cs. fst (getCourses env order) = Inr cs \<and>
           list_all2 (course_fields env) (case result of None \<Rightarrow> [] | Some raws \<Rightarrow> raws) cs"
proof -
  obtain cs where cs:
    "map (course_with_teacher env) (case result of None \<Rightarrow> [] | Some raws \<Rightarrow> raws) = map Inr cs"
    "list_all2 (course_fields env) (case result of None \<Rightarrow> [] | Some raws \<Rightarrow> raws) cs"
    using courses_with_teachers by blast
  show ?thesis
    using cs(2) by (intro exI [of _ cs]) (simp add: getCourses_def assms Let_def cs(1) promise_all_map_Inr)
qed

lemma attachments_of_length:
  "length (attachments_of ms) = length (filter (\<lambda>m. m_driveFile m \<noteq> None) ms)"
  by (induction ms) (auto split: option.splits)

lemma submissions_fold_Some:
  "fold (\<lambda>sub m. m(sub_courseWorkId sub \<mapsto> sub_id sub)) ss m0 k = Some v \<Longrightarrow>
     m0 k = Some v \<or> v \<in> sub_id ` {sub \<in> set ss. sub_courseWorkId sub = k}"
  by (induction ss arbitrary: m0) (fastforce split: if_splits)+

lemma submissions_fold_None:
  "(fold (\<lambda>sub m. m(sub_courseWorkId sub \<mapsto> sub_id sub)) ss m0 k = None) \<longleftrightarrow>
     (m0 k = None \<and> k \<notin> sub_courseWorkId ` set ss)"
  by (induction ss arbitrary: m0) auto

lemma to_assignment_fields:
  "assignment_fields env subs item (to_assignment env (submissions_map (Some subs)) item)"
  by (auto simp: assignment_fields_def to_assignment_def or_default_def formatDate_def
      submissions_map_def submissions_fold_None attachments_of_length
      dest: submissions_fold_Some split: option.splits)

lemma to_assignment_no_submissions:
  "assignment_fields env [] item (to_assignment env (submissions_map None) item)"
  by (auto simp: assignment_fields_def to_assignment_def or_default_def formatDate_def
      submissions_map_def attachments_of_length split: option.splits)

lemma getAssignments_fields:
  assumes "courseWork_list env courseId = Inr result"
    and "studentSubmissions_list env courseId = Inr subs"
  shows "\<exists>as. fst (getAssignments env courseId) = Inr as \<and>
           list_all2 (assignment_fields env (case subs of None \<Rightarrow> [] | Some ss \<Rightarrow> ss))
             (case result of None \<Rightarrow> [] | Some items \<Rightarrow> items) as"
proof (cases subs)
  case None
  then show ?thesis
    using assms
    by (simp add: getAssignments_def Let_def list_all2_map2 list_all2_same
        to_assignment_no_submissions)
next
  case (Some ss)
  then show ?thesis
    using assms
    by (simp add: getAssignments_def Let_def list_all2_map2 list_all2_same
        to_assignment_fields)
qed

text \<open>
  Claim C5, as stated, fails: a record returned by \<open>getAssignments\<close> has an undefined
  \<open>studentSubmissionId\<close> when the submissions list has no entry for the coursework. In the
  sample classroom the first assignment is such a record.
\<close>

theorem getAssignments_submission_undefined:
  "fst (getAssignments sample_google ''c1'') =
     Inr [\<lparr>a_id = ''w1'', a_courseId = ''c1'', a_title = ''Essay'',
           a_description = ''No description provided.'', a_dueDate = ''No due date'',
           a_attachments = [], a_studentSubmissionId = None\<rparr>,
          \<lparr>a_id = ''w2'', a_courseId = ''c1'', a_title = ''Lab'',
           a_description = ''Write it up'', a_dueDate = ''3/14/2025'',
           a_attachments = [\<lparr>att_title = ''Worksheet'', att_driveFile = sample_drive_file\<rparr>],
           a_studentSubmissionId = Some ''s2''\<rparr>]"
  by (simp add: getAssignments_def to_assignment_def submissions_map_def or_default_def
      formatDate_def sample_google_def sample_coursework_def sample_drive_file_def)

text \<open>
  Claim C5, amended. When the list calls succeed, \<open>getCourses\<close> and \<open>getAssignments\<close>
  return one record per item of the response, in order. Id, name, title and course id are
  copied. The section is the section of the response, or \<open>General\<close> when that is missing
  or empty; the teacher is the full name looked up, or \<open>N/A\<close> when the lookup fails or
  gives no name. The description is the one of the response, or
  \<open>No description provided.\<close> when that is missing or empty; the due date is the date
  rendered by the browser, or \<open>No due date\<close> when it is missing; the attachments are a
  list with one attachment per Drive-file material, so empty when there is none. The
  submission id is the exception: it is undefined exactly when no submission of the
  response belongs to the coursework, and otherwise the id of such a submission.
\<close>

theorem returned_records_fields:
  "(courses_list env = Inr courses \<longrightarrow>
      (\<exists>cs. fst (getCourses env order) = Inr cs \<and>
         list_all2 (course_fields env) (case courses of None \<Rightarrow> [] | Some raws \<Rightarrow> raws) cs)) \<and>
   (courseWork_list env courseId = Inr coursework \<and>
    studentSubmissions_list env courseId = Inr subs \<longrightarrow>
      (\<exists>as. fst (getAssignments env courseId) = Inr as \<and>
         list_all2 (assignment_fields env (case subs of None \<Rightarrow> [] | Some ss \<Rightarrow> ss))
           (case coursework of None \<Rightarrow> [] | Some items \<Rightarrow> items) as))"
  using getCourses_fields getAssignments_fields by blast

theorem returned_records_fields_witness:
  "courses_list sample_google = Inr (Some sample_courses) \<and>
   fst (getCourses sample_google [1, 0]) =
     Inr [\<lparr>course_id = ''c1'', course_name = ''Algebra'', course_section = ''General'',
           course_teacher = ''Ada Lovelace''\<rparr>,
          \<lparr>course_id = ''c2'', course_name = ''Biology'', course_section = ''Period 2'',
           course_teacher = ''N/A''\<rparr>] \<and>
   (\<exists>cs. fst (getCourses sample_google [1, 0]) = Inr cs \<and>
      list_all2 (course_fields sample_google) sample_courses cs) \<and>
   (\<exists>as. fst (getAssignments sample_google ''c1'') = Inr as \<and>
      list_all2 (assignment_fields sample_google [\<lparr>sub_courseWorkId = ''w2'', sub_id = ''s2''\<rparr>])
        sample_coursework as)"
proof -
  have listed: "courses_list sample_google = Inr (Some sample_courses)"
      "courseWork_list sample_google ''c1'' = Inr (Some sample_coursework)"
      "studentSubmissions_list sample_google ''c1'' =
         Inr (Some [\<lparr>sub_courseWorkId = ''w2'', sub_id = ''s2''\<rparr>])"
    by (simp_all add: sample_google_def)
  have courses: "fst (getCourses sample_google [1, 0]) =
     Inr [\<lparr>course_id = ''c1'', course_name = ''Algebra'', course_section = ''General'',
           course_teacher = ''Ada Lovelace''\<rparr>,
          \<lparr>course_id = ''c2'', course_name = ''Biology'', course_section = ''Period 2'',
           course_teacher = ''N/A''\<rparr>]"
    by (simp add: getCourses_def course_with_teacher_def or_default_def promise_all_def
        settle_order_def sample_google_def sample_courses_def)
  from returned_records_fields [of sample_google "Some sample_courses" "[1, 0]" "''c1''"
      "Some sample_coursework" "Some [\<lparr>sub_courseWorkId = ''w2'', sub_id = ''s2''\<rparr>]"]
    listed courses
  show ?thesis
    by simp
qed


subsection \<open>Errors of external calls\<close>












end
